theory Spec2Isabelle
  imports Complex_Main
begin

section \<open>Python values at the boundary of the engine\<close>

text \<open>
  The exposure engine \<^verbatim>\<open>calculate_unified_transmission_exposure\<close> receives its numeric
  fields as optional strings and converts them with the helpers of
  \<^verbatim>\<open>calculators/validators.py\<close>. A Python \<^verbatim>\<open>float\<close> is modelled as a real number
  or one of the three special values; the arithmetic of the simulation is carried out over
  the reals (rounding inside the double range is not modelled; overflow of a literal to
  infinity and its underflow to zero are). A \<^verbatim>\<open>str\<close> is a list of code points below 256.
\<close>

datatype pyfloat = Finite real | PosInf | NegInf | NaN

datatype pyval = PyNone | PyStr string | PyFloat pyfloat | PyInt int | PyBool bool

fun is_finite :: "pyfloat \<Rightarrow> bool" where
  "is_finite (Finite r) = True"
| "is_finite PosInf = False"
| "is_finite NegInf = False"
| "is_finite NaN = False"

subsection \<open>\<^verbatim>\<open>str.strip\<close>, \<^verbatim>\<open>repr\<close>\<close>

definition is_space :: "char \<Rightarrow> bool" where
  \<comment> \<open>\<^verbatim>\<open>str.isspace\<close> on the code points below 256\<close>
  "is_space c = (let n = (of_char c :: nat)
                 in (9 \<le> n \<and> n \<le> 13) \<or> (28 \<le> n \<and> n \<le> 32) \<or> n = 133 \<or> n = 160)"

definition py_strip :: "string \<Rightarrow> string" where
  "py_strip s = rev (dropWhile is_space (rev (dropWhile is_space s)))"

fun strip_value :: "pyval \<Rightarrow> string" where
  \<comment> \<open>\<^verbatim>\<open>_strip\<close>: \<^verbatim>\<open>value.strip() if isinstance(value, str) else ""\<close>\<close>
  "strip_value (PyStr s) = py_strip s"
| "strip_value v = []"

definition hex_digit :: "nat \<Rightarrow> char" where
  "hex_digit n = (if n < 10 then char_of (48 + n) else char_of (87 + n))"

definition repr_char :: "char \<Rightarrow> char \<Rightarrow> string" where
  \<comment> \<open>one character of \<^verbatim>\<open>repr\<close> of a string quoted with \<open>q\<close>\<close>
  "repr_char q c = (let n = (of_char c :: nat) in
     if c = q \<or> c = CHR 0x5C then [CHR 0x5C, c]
     else if n = 9 then [CHR 0x5C, CHR ''t'']
     else if n = 10 then [CHR 0x5C, CHR ''n'']
     else if n = 13 then [CHR 0x5C, CHR ''r'']
     else if n < 32 \<or> n = 127 \<or> (128 \<le> n \<and> n \<le> 160) \<or> n = 173
       then [CHR 0x5C, CHR ''x'', hex_digit (n div 16), hex_digit (n mod 16)]
     else [c])"

definition repr_str :: "string \<Rightarrow> string" where
  \<comment> \<open>double quotes are chosen when the text has a single quote and no double quote\<close>
  "repr_str s = (let q = (if CHR 0x27 \<in> set s \<and> CHR 0x22 \<notin> set s then CHR 0x22 else CHR 0x27)
                 in [q] @ concat (map (repr_char q) s) @ [q])"

subsection \<open>\<^verbatim>\<open>float(str)\<close> and \<^verbatim>\<open>int(str)\<close>\<close>

definition is_digit :: "char \<Rightarrow> bool" where
  "is_digit c = (let n = (of_char c :: nat) in 48 \<le> n \<and> n \<le> 57)"

definition digit_val :: "char \<Rightarrow> nat" where
  "digit_val c = of_char c - 48"

definition digits_val :: "string \<Rightarrow> nat" where
  "digits_val ds = foldl (\<lambda>acc c. 10 * acc + digit_val c) 0 ds"

fun underscores_ok :: "char \<Rightarrow> string \<Rightarrow> bool" where
  \<comment> \<open>an underscore stands only between two digits; the first argument is the previous character\<close>
  "underscores_ok prev [] = (prev \<noteq> CHR ''_'')"
| "underscores_ok prev (c # cs) =
     (if c = CHR ''_'' then is_digit prev \<and> underscores_ok c cs
      else (if prev = CHR ''_'' then is_digit c else True) \<and> underscores_ok c cs)"

definition drop_underscores :: "string \<Rightarrow> string option" where
  "drop_underscores s =
     (if underscores_ok (CHR 0x00) s then Some (filter (\<lambda>c. c \<noteq> CHR ''_'') s) else None)"

definition split_sign :: "string \<Rightarrow> bool \<times> string" where
  \<comment> \<open>an optional sign; the flag says that the sign is minus\<close>
  "split_sign s = (case s of
       c # cs \<Rightarrow> if c = CHR ''-'' then (True, cs) else if c = CHR ''+'' then (False, cs) else (False, s)
     | [] \<Rightarrow> (False, []))"

definition to_lower :: "char \<Rightarrow> char" where
  "to_lower c = (let n = (of_char c :: nat) in if 65 \<le> n \<and> n \<le> 90 then char_of (n + 32) else c)"

definition parse_inf_or_nan :: "string \<Rightarrow> pyfloat option" where
  "parse_inf_or_nan s = (let (neg, r) = split_sign s; w = map to_lower r in
     if w = ''inf'' \<or> w = ''infinity'' then Some (if neg then NegInf else PosInf)
     else if w = ''nan'' then Some NaN
     else None)"

definition parse_exponent :: "string \<Rightarrow> int option" where
  \<comment> \<open>what follows the mantissa: nothing, or \<^verbatim>\<open>e\<close>, an optional sign and digits\<close>
  "parse_exponent s = (case s of
       [] \<Rightarrow> Some 0
     | c # cs \<Rightarrow>
         if c = CHR ''e'' \<or> c = CHR ''E'' then
           (let (neg, r) = split_sign cs in
            if r \<noteq> [] \<and> list_all is_digit r
            then Some (if neg then - int (digits_val r) else int (digits_val r))
            else None)
         else None)"

definition parse_decimal :: "string \<Rightarrow> real option" where
  "parse_decimal s = (let (neg, r0) = split_sign s;
       ip = takeWhile is_digit r0; r1 = dropWhile is_digit r0;
       fp = (case r1 of c # cs \<Rightarrow> if c = CHR ''.'' then takeWhile is_digit cs else [] | [] \<Rightarrow> []);
       r2 = (case r1 of c # cs \<Rightarrow> if c = CHR ''.'' then dropWhile is_digit cs else r1 | [] \<Rightarrow> [])
     in if ip = [] \<and> fp = [] then None
        else (case parse_exponent r2 of
                None \<Rightarrow> None
              | Some e \<Rightarrow>
                  (let m = real (digits_val (ip @ fp)); k = e - int (length fp);
                       v = (if 0 \<le> k then m * 10 ^ nat k else m / 10 ^ nat (- k))
                   in Some (if neg then - v else v))))"

definition round_double :: "real \<Rightarrow> pyfloat" where
  \<comment> \<open>a decimal value at or beyond \<open>2^1024 - 2^970\<close> rounds to an infinity, one at or below
     half the least subnormal \<open>2^-1074\<close> to zero; in between the value is kept as it is
     (the rounding to the nearest double is not modelled)\<close>
  "round_double v = (if 2 ^ 1024 - 2 ^ 970 \<le> v then PosInf
                     else if v \<le> - (2 ^ 1024 - 2 ^ 970) then NegInf
                     else if \<bar>v\<bar> \<le> 1 / 2 ^ 1075 then Finite 0
                     else Finite v)"

definition py_float :: "string \<Rightarrow> pyfloat option" where
  \<comment> \<open>\<^verbatim>\<open>float(txt)\<close> on a stripped text; \<open>None\<close> is \<^verbatim>\<open>ValueError\<close>\<close>
  "py_float txt = (case drop_underscores txt of
       None \<Rightarrow> None
     | Some t \<Rightarrow> (case parse_inf_or_nan t of
           Some f \<Rightarrow> Some f
         | None \<Rightarrow> map_option round_double (parse_decimal t)))"

definition py_int :: "string \<Rightarrow> int option" where
  \<comment> \<open>\<^verbatim>\<open>int(txt)\<close> in base ten on a stripped text; \<open>None\<close> is \<^verbatim>\<open>ValueError\<close>\<close>
  "py_int txt = (case drop_underscores txt of
       None \<Rightarrow> None
     | Some t \<Rightarrow> (let (neg, r) = split_sign t in
           if r \<noteq> [] \<and> list_all is_digit r
           then Some (if neg then - int (digits_val r) else int (digits_val r))
           else None))"

subsection \<open>\<^verbatim>\<open>safe_float\<close> and \<^verbatim>\<open>safe_int\<close>\<close>

fun repr_value :: "pyval \<Rightarrow> string" where
  \<comment> \<open>\<^verbatim>\<open>repr\<close> is needed on strings only: no other value reaches the error branch\<close>
  "repr_value (PyStr s) = repr_str s"
| "repr_value v = []"

definition safe_float :: "pyval \<Rightarrow> pyfloat \<Rightarrow> pyfloat \<times> string" where
  "safe_float val dflt = (let txt = strip_value val in
     if txt = [] then (dflt, [])
     else (case py_float txt of
             Some f \<Rightarrow> (f, [])
           | None \<Rightarrow> (dflt, ''Invalid float: '' @ repr_value val)))"

definition safe_int :: "pyval \<Rightarrow> int \<Rightarrow> int \<times> string" where
  "safe_int val dflt = (let txt = strip_value val in
     if txt = [] then (dflt, [])
     else (case py_int txt of
             Some n \<Rightarrow> (n, [])
           | None \<Rightarrow> (dflt, ''Invalid int: '' @ repr_value val)))"

section \<open>Size-resolved helpers of the exposure model\<close>

text \<open>
  The module constants and the deterministic physics functions of
  \<^verbatim>\<open>calculators/exposure_calculator.py\<close>, over the reals. A float power with a
  fractional exponent is \<open>powr\<close> (the bases that reach it are positive), an integer
  power is \<open>^\<close>.
\<close>

definition oneoverln2 :: real where
  "oneoverln2 = 1 / ln 2"

definition linspace :: "real \<Rightarrow> real \<Rightarrow> nat \<Rightarrow> real list" where
  "linspace start stop num = map (\<lambda>i. start + real i * ((stop - start) / real (num - 1))) [0..<num]"

definition logspace :: "real \<Rightarrow> real \<Rightarrow> nat \<Rightarrow> real list" where
  "logspace start stop num = map (\<lambda>e. 10 powr e) (linspace start stop num)"

definition Ds :: "real list" where
  \<comment> \<open>particle-size grid in micrometres\<close>
  "Ds = logspace (log 10 0.1) (log 10 30) 50"

definition bin_widths :: "real list \<Rightarrow> real list" where
  \<comment> \<open>central differences inside, one-sided differences at the two ends\<close>
  "bin_widths ds = (let n = length ds in
     map (\<lambda>i. if i = 0 then ds ! 1 - ds ! 0
              else if i = n - 1 then ds ! (n - 1) - ds ! (n - 2)
              else (ds ! (i + 1) - ds ! (i - 1)) / 2) [0..<n])"

definition dDs :: "real list" where
  "dDs = bin_widths Ds"

definition Dmax_SR :: real where "Dmax_SR = 100"
definition Dmax_LR :: real where "Dmax_LR = 20"
definition D_mouth :: real where "D_mouth = 0.02"
definition beta_r_j :: real where "beta_r_j = 0.18"
definition beta_r_p :: real where "beta_r_p = 0.20"
definition beta_x_j :: real where "beta_x_j = 2.4"
definition beta_x_p :: real where "beta_x_p = 2.2"

datatype mode = ModeB | ModeL | ModeO

fun cn :: "mode \<Rightarrow> real" where
  "cn ModeB = 0.06" | "cn ModeL = 0.2" | "cn ModeO = 0.0010008"

fun mu :: "mode \<Rightarrow> real" where
  "mu ModeB = 0.989541" | "mu ModeL = 1.38629" | "mu ModeO = 4.97673"

fun sigma :: "mode \<Rightarrow> real" where
  "sigma ModeB = 0.262364" | "sigma ModeL = 0.506818" | "sigma ModeO = 0.585005"

definition famp :: "string \<Rightarrow> mode \<Rightarrow> real" where
  "famp activity m =
     (if activity = ''1'' then (case m of ModeB \<Rightarrow> 1 | ModeL \<Rightarrow> 0 | ModeO \<Rightarrow> 0)
      else if activity = ''2'' \<or> activity = ''3'' then (case m of ModeB \<Rightarrow> 1 | ModeL \<Rightarrow> 1 | ModeO \<Rightarrow> 1)
      else (case m of ModeB \<Rightarrow> 1 | ModeL \<Rightarrow> 5 | ModeO \<Rightarrow> 5))"

definition mode_term :: "real \<Rightarrow> string \<Rightarrow> mode \<Rightarrow> real" where
  \<comment> \<open>\<^verbatim>\<open>Np_term * Vp * 1e-6\<close> of one mode\<close>
  "mode_term D activity m =
     (famp activity m * cn m / (sqrt (2 * pi) * sigma m) / D)
       * exp (- ((ln D - mu m) ^ 2) / (2 * sigma m ^ 2))
       * ((4 / 3) * pi * (D / 2) ^ 3) * (1 / 10 ^ 6)"

definition emission_spectrum_henriques :: "real \<Rightarrow> string \<Rightarrow> real" where
  "emission_spectrum_henriques D activity =
     foldl (\<lambda>result m. if famp activity m > 0 then result + mode_term D activity m else result)
       0 [ModeB, ModeL, ModeO]"

definition get_henriques_breathing_rate :: "string \<Rightarrow> real" where
  "get_henriques_breathing_rate physical_activity =
     (if physical_activity = ''sitting'' then 0.51
      else if physical_activity = ''standing'' then 0.57
      else if physical_activity = ''light'' then 1.24
      else if physical_activity = ''moderate'' then 1.77
      else if physical_activity = ''heavy'' then 3.28
      else if physical_activity = ''seated'' then 0.51
      else if physical_activity = ''light_exercise'' then 1.24
      else if physical_activity = ''moderate_exercise'' then 1.77
      else if physical_activity = ''high_intensity'' then 3.28
      else 0.57)"

definition get_henriques_vocalization_activity :: "string \<Rightarrow> string" where
  "get_henriques_vocalization_activity vocal_activity =
     (if vocal_activity = ''breathing'' then ''1''
      else if vocal_activity = ''just_breathing'' then ''1''
      else if vocal_activity = ''speaking'' then ''2''
      else if vocal_activity = ''loudly_speaking'' then ''5''
      else if vocal_activity = ''loud_speaking'' then ''5''
      else if vocal_activity = ''shouting'' then ''5''
      else ''2'')"

record jet_params =
  jp_x_transition :: real
  jp_x0_j :: real
  jp_x0_p :: real
  jp_t_star :: real
  jp_Q_exh :: real
  jp_u0 :: real
  jp_t0_j :: real
  jp_t0_p :: real

definition calculate_henriques_jet_parameters :: "real \<Rightarrow> jet_params" where
  "calculate_henriques_jet_parameters BR =
     (let T = 4; phi_j = 2;
          BR_s = BR / 3600;
          Q_exh = phi_j * BR_s;
          V_p = T * BR_s;
          A_mouth = pi * (D_mouth / 2) ^ 2;
          u0 = Q_exh / A_mouth;
          t_star = T / 2;
          t0_j = (sqrt pi * D_mouth ^ 3) / (8 * beta_r_j ^ 2 * beta_x_j ^ 2 * Q_exh);
          t0_p = (beta_r_j ^ 4 * beta_x_j ^ 4 / (beta_r_p ^ 4 * beta_x_p ^ 4))
                   * (Q_exh / V_p) * (t_star + t0_j) ^ 2 - t_star;
          x0_j = D_mouth / (2 * beta_r_j);
          x_transition = beta_x_j * ((Q_exh * u0) powr 0.25) * ((t_star + t0_j) powr 0.5) - x0_j;
          x0_p = (beta_r_j / beta_r_p) * (x_transition + x0_j) - x_transition
      in \<lparr>jp_x_transition = x_transition, jp_x0_j = x0_j, jp_x0_p = x0_p, jp_t_star = t_star,
          jp_Q_exh = Q_exh, jp_u0 = u0, jp_t0_j = t0_j, jp_t0_p = t0_p\<rparr>)"

definition emission_spectrum_IRP_henriques :: "real \<Rightarrow> string \<Rightarrow> real \<Rightarrow> real \<Rightarrow> real" where
  "emission_spectrum_IRP_henriques D vocal_activity viral_load f_inf =
     emission_spectrum_henriques D (get_henriques_vocalization_activity vocal_activity)
       * viral_load * f_inf"

definition deposition_fraction :: "real \<Rightarrow> real \<Rightarrow> real" where
  "deposition_fraction D evaporation_factor =
     (let d = D * evaporation_factor;
          IFrac = 1 - 0.5 * (1 - (1 / (1 + (0.00076 * (d powr 2.8)))))
      in IFrac * (0.0587
            + (0.911 / (1 + exp (4.77 + 1.485 * ln d)))
            + (0.943 / (1 + exp (0.508 - 2.58 * ln d)))))"

definition sedimentation_rate :: "real \<Rightarrow> real \<Rightarrow> real" where
  "sedimentation_rate D evaporation_factor =
     (let vg = 1.88 / 10 ^ 4 * ((D * evaporation_factor) / 2.5) ^ 2; h = 1.5
      in (vg * 3600) / h)"

definition viral_inactivation_rate_long :: "real \<Rightarrow> real \<Rightarrow> real \<Rightarrow> real" where
  \<comment> \<open>a zero denominator gives an infinite half-life in the source, capped to 6.43 like
     the value 0 that the division yields here\<close>
  "viral_inactivation_rate_long D T RH =
     (let Tc = T - 273.15;
          t_norm = (Tc - 20.615) / 10.585;
          h_norm = (RH * 100 - 45.235) / 28.665;
          hl = ln 2 / (0.16030 + 0.04018 * t_norm + 0.02176 * h_norm - 0.14369 - 0.02636 * t_norm);
          hl' = (if hl \<le> 0 then 6.43 else min 6.43 hl)
      in ln 2 / hl')"

definition short_range_viability_decay :: "real \<Rightarrow> real \<Rightarrow> real \<Rightarrow> real" where
  "short_range_viability_decay x u0 RH =
     (if RH \<le> 0.40 then
        (let tx = x / u0; lambda_SR = 1 - 0.016 * tx in max 0 lambda_SR)
      else 1)"

definition get_immune_emission_multiplier :: "string \<Rightarrow> real" where
  "get_immune_emission_multiplier immunocompromised_status =
     (if immunocompromised_status = ''normal'' then 1
      else if immunocompromised_status = ''moderate'' then 8
      else if immunocompromised_status = ''severe'' then 20
      else 1)"

definition jet_dilution :: "real \<Rightarrow> jet_params \<Rightarrow> real" where
  \<comment> \<open>jet-like stage: \<^verbatim>\<open>2 * beta_r_j * (x_eff + mc_x0_j) / D_mouth\<close>\<close>
  "jet_dilution x jp = 2 * beta_r_j * (x + jp_x0_j jp) / D_mouth"

definition puff_dilution :: "real \<Rightarrow> jet_params \<Rightarrow> real" where
  \<comment> \<open>puff-like stage, anchored at the value of the jet-like formula at the transition\<close>
  "puff_dilution x jp =
     (let Sx_star_mc = 2 * beta_r_j * (jp_x_transition jp + jp_x0_j jp) / D_mouth
      in Sx_star_mc * (1 + beta_r_p * (x - jp_x_transition jp)
                             / (beta_r_j * (jp_x_transition jp + jp_x0_j jp))) ^ 3)"

definition dilution_factor :: "real \<Rightarrow> jet_params \<Rightarrow> real" where
  \<comment> \<open>\<^verbatim>\<open>Sx_sim\<close>: the stage is chosen by comparing the distance with the transition distance\<close>
  "dilution_factor x jp =
     (if x < jp_x_transition jp then jet_dilution x jp else puff_dilution x jp)"


section \<open>Random draws\<close>

text \<open>
  The engine draws from NumPy's global generator. The generator is modelled as two
  sequences that the draws consume in order: uniform variates (each in \<open>[0, 1)\<close>) and
  standard normal variates. Every sampling routine of the source is the transformation
  that NumPy's legacy generator applies to one such variate.
\<close>

record rng =
  unif :: "nat \<Rightarrow> real"
  gauss :: "nat \<Rightarrow> real"

definition np_random :: "rng \<Rightarrow> real \<times> rng" where
  "np_random g = (unif g 0, g\<lparr>unif := (\<lambda>n. unif g (Suc n))\<rparr>)"

definition np_uniform :: "real \<Rightarrow> real \<Rightarrow> rng \<Rightarrow> real \<times> rng" where
  "np_uniform low high g = (let (u, g') = np_random g in (low + (high - low) * u, g'))"

definition np_normal :: "real \<Rightarrow> real \<Rightarrow> rng \<Rightarrow> real \<times> rng" where
  "np_normal loc scale g = (loc + scale * gauss g 0, g\<lparr>gauss := (\<lambda>n. gauss g (Suc n))\<rparr>)"

definition np_lognormal :: "real \<Rightarrow> real \<Rightarrow> rng \<Rightarrow> real \<times> rng" where
  "np_lognormal mean sd g = (let (z, g') = np_normal mean sd g in (exp z, g'))"

definition np_weibull :: "real \<Rightarrow> rng \<Rightarrow> real \<times> rng" where
  \<comment> \<open>a standard exponential variate \<open>- ln (1 - u)\<close> raised to \<open>1 / a\<close>\<close>
  "np_weibull a g = (let (u, g') = np_random g in ((- ln (1 - u)) powr (1 / a), g'))"

definition np_clip :: "real \<Rightarrow> real \<Rightarrow> real \<Rightarrow> real" where
  "np_clip v lo hi = min hi (max lo v)"

definition sample_omicron_transmissibility_bayesian :: "rng \<Rightarrow> real \<times> rng" where
  "sample_omicron_transmissibility_bayesian g =
     (let pooled_mean = 4.20; ci_lower = 2.05; ci_upper = 6.35;
          log_mean = ln pooled_mean;
          log_se = (ln ci_upper - ln ci_lower) / (2 * 1.96);
          (log_omicron, g') = np_normal log_mean log_se g;
          omicron_factor = exp log_omicron
      in (np_clip omicron_factor 1.5 8.0, g'))"

definition breathing_sigma :: "string \<Rightarrow> real" where
  \<comment> \<open>the spread of the log-normal breathing rate, by physical activity\<close>
  "breathing_sigma physical_activity =
     (if physical_activity = ''sitting'' \<or> physical_activity = ''seated'' then 0.053
      else if physical_activity = ''standing'' then 0.053
      else if physical_activity = ''light'' \<or> physical_activity = ''light_exercise'' then 0.12
      else if physical_activity = ''moderate'' \<or> physical_activity = ''moderate_exercise'' then 0.34
      else 0.72)"

definition sample_breathing_rate :: "string \<Rightarrow> rng \<Rightarrow> real \<times> rng" where
  "sample_breathing_rate physical_activity g =
     np_lognormal (ln (get_henriques_breathing_rate physical_activity))
       (breathing_sigma physical_activity) g"

section \<open>Validation of the inputs\<close>

record inputs =
  in_C0 :: pyval
  in_Q0 :: pyval
  in_p :: pyval
  in_ACH :: pyval
  in_room_volume :: pyval
  in_delta_t :: pyval
  in_x :: pyval
  in_gamma :: pyval
  in_f_e :: pyval
  in_f_i :: pyval
  in_omicron :: pyval
  in_covid_prevalence :: pyval
  in_immune :: pyval
  in_N :: pyval
  in_activity_choice :: string
  in_percentage_masked :: pyval
  in_user_physical_activity :: string
  in_others_physical_activity :: string
  in_others_vocal_activity :: string
  in_RH :: real
  in_CO2 :: real
  in_inside_temp :: real
  in_immunocompromised_status :: string

record 'a vals =
  C0_val :: 'a
  Q0_val :: 'a
  p_val :: 'a
  ACH_val :: 'a
  room_volume_val :: 'a
  delta_t_val :: 'a
  x_val :: 'a
  gamma_val :: 'a
  f_e_val :: 'a
  f_i_val :: 'a
  omicron_val :: 'a
  covid_prev_pct :: 'a
  immune_val :: 'a
  N_val :: int
  percentage_masked_val :: 'a

definition validate :: "inputs \<Rightarrow> string list \<times> pyfloat vals" where
  \<comment> \<open>the conversions in the order of the source, with the list of error strings\<close>
  "validate inp =
     (let (c0, e1) = safe_float (in_C0 inp) (Finite 0.1);
          (q0, e2) = safe_float (in_Q0 inp) (Finite 0.1);
          (pv, e3) = safe_float (in_p inp) (Finite 0.1);
          (ach, e4) = safe_float (in_ACH inp) (Finite 1.0);
          (vol, e5) = safe_float (in_room_volume inp) (Finite 1000.0);
          (dt, e6) = safe_float (in_delta_t inp) (Finite 42.0);
          (xv, e7) = safe_float (in_x inp) (Finite 0.7);
          (gm, e8) = safe_float (in_gamma inp) (Finite 0.5);
          (fe, e9) = safe_float (in_f_e inp) (Finite 1.0);
          (fi, e10) = safe_float (in_f_i inp) (Finite 1.0);
          (om, e11) = safe_float (in_omicron inp) (Finite 4.20);
          (pct, e12) = safe_float (in_covid_prevalence inp) (Finite 1.0);
          (im, e13) = safe_float (in_immune inp) (Finite 1.0);
          (n, e14) = safe_int (in_N inp) 1;
          (pm, e15) = safe_float (in_percentage_masked inp) (Finite 0.0)
      in ([e1, e2, e3, e4, e5, e6, e7, e8, e9, e10, e11, e12, e13, e14, e15],
          \<lparr>C0_val = c0, Q0_val = q0, p_val = pv, ACH_val = ach, room_volume_val = vol,
           delta_t_val = dt, x_val = xv, gamma_val = gm, f_e_val = fe, f_i_val = fi,
           omicron_val = om, covid_prev_pct = pct, immune_val = im, N_val = n,
           percentage_masked_val = pm\<rparr>))"

definition py_any :: "string list \<Rightarrow> bool" where
  \<comment> \<open>\<^verbatim>\<open>any(errors)\<close>: some error string is not empty\<close>
  "py_any errors = list_ex (\<lambda>e. e \<noteq> []) errors"

definition float_fields :: "'a vals \<Rightarrow> 'a list" where
  "float_fields v = [C0_val v, Q0_val v, p_val v, ACH_val v, room_volume_val v, delta_t_val v,
     x_val v, gamma_val v, f_e_val v, f_i_val v, omicron_val v, covid_prev_pct v, immune_val v,
     percentage_masked_val v]"

definition vals_finite :: "pyfloat vals \<Rightarrow> bool" where
  "vals_finite v = list_all is_finite (float_fields v)"

fun the_real :: "pyfloat \<Rightarrow> real" where
  "the_real (Finite r) = r"

definition real_vals :: "pyfloat vals \<Rightarrow> real vals" where
  \<comment> \<open>the configuration as reals; used on finite configurations only\<close>
  "real_vals v = \<lparr>C0_val = the_real (C0_val v), Q0_val = the_real (Q0_val v),
     p_val = the_real (p_val v), ACH_val = the_real (ACH_val v),
     room_volume_val = the_real (room_volume_val v), delta_t_val = the_real (delta_t_val v),
     x_val = the_real (x_val v), gamma_val = the_real (gamma_val v),
     f_e_val = the_real (f_e_val v), f_i_val = the_real (f_i_val v),
     omicron_val = the_real (omicron_val v), covid_prev_pct = the_real (covid_prev_pct v),
     immune_val = the_real (immune_val v), N_val = N_val v,
     percentage_masked_val = the_real (percentage_masked_val v)\<rparr>"

definition covid_prevalence_val :: "real vals \<Rightarrow> real" where
  \<comment> \<open>the prevalence input is a percentage\<close>
  "covid_prevalence_val rv = covid_prev_pct rv / 100"


section \<open>One Monte Carlo trial\<close>

datatype py_exception = ZeroDivisionError | ValueError string | ArangeError

text \<open>
  The characteristics drawn for one infectious occupant, with the dilution factor and the
  short-range decay derived from them. The dilution factor of the jet-like stage is a
  Python float, so \<^verbatim>\<open>1/Sx_sim\<close> raises \<^verbatim>\<open>ZeroDivisionError\<close> when it is zero; in
  the puff-like stage it is a NumPy scalar.

  The arithmetic of a trial is exact: a float64 operation that overflows in the program
  has no counterpart here. The long-range concentration
  \<^verbatim>\<open>emission_rate / (lam * room_volume_val)\<close>, infinite in the program at a subnormal room
  volume (and the short-range concentration then NaN), is an ordinary real in this theory.
\<close>

record occupant =
  oc_vlin :: real
  oc_f_inf :: real
  oc_others_BR :: real
  oc_exhalation_filter :: real
  oc_jet_stage :: bool
  oc_Sx_sim :: real
  oc_lambda_SR :: real

definition sample_occupant :: "real vals \<Rightarrow> inputs \<Rightarrow> rng \<Rightarrow> occupant \<times> rng" where
  "sample_occupant rv inp g =
     (let weibull_shape = 3.900; weibull_scale = 6.850;
          (w, g1) = np_weibull weibull_shape g;
          vlin_log10 = np_clip (w * weibull_scale) 2.0 10.0;
          vlin = 10 powr vlin_log10;
          (f_inf, g2) = np_uniform 0.01 0.60 g1;
          (others_BR, g3) = sample_breathing_rate (in_others_physical_activity inp) g2;
          (um, g4) = np_random g3;
          is_masked = (um < percentage_masked_val rv);
          exhalation_filter = (if is_masked then f_e_val rv else 1.0);
          mc_jet_params = calculate_henriques_jet_parameters others_BR;
          x_eff = x_val rv
      in (\<lparr>oc_vlin = vlin, oc_f_inf = f_inf, oc_others_BR = others_BR,
           oc_exhalation_filter = exhalation_filter,
           oc_jet_stage = (x_eff < jp_x_transition mc_jet_params),
           oc_Sx_sim = dilution_factor x_eff mc_jet_params,
           oc_lambda_SR = short_range_viability_decay x_eff (jp_u0 mc_jet_params) (in_RH inp)\<rparr>,
          g4))"

definition dose_increment ::
  "real vals \<Rightarrow> inputs \<Rightarrow> real \<Rightarrow> real \<Rightarrow> real \<Rightarrow> occupant \<Rightarrow> real \<Rightarrow> py_exception + real" where
  \<comment> \<open>the dose of one size bin, before its width is applied\<close>
  "dose_increment rv inp immune_emission_multiplier omicron_val_sim BR oc Dv =
     (let C0_SR = emission_spectrum_IRP_henriques Dv (in_others_vocal_activity inp)
                    (oc_vlin oc) (oc_f_inf oc);
          C0_SR_omicron = C0_SR * omicron_val_sim;
          C0_SR_immune_adjusted = C0_SR_omicron * immune_emission_multiplier;
          C0_SR_filtered = C0_SR_immune_adjusted * oc_exhalation_filter oc;
          CLR = (if Dv \<le> Dmax_LR then
                   (let emission_rate = C0_SR_filtered * oc_others_BR oc;
                        lam = ACH_val rv + sedimentation_rate Dv 0.3
                                + viral_inactivation_rate_long Dv (in_inside_temp inp) (in_RH inp)
                    in emission_rate / (lam * room_volume_val rv))
                 else 0);
          eta_in = 1 - f_i_val rv;
          dt_h = delta_t_val rv / 3600
      in if Dv \<le> Dmax_SR then
           (if oc_jet_stage oc \<and> oc_Sx_sim oc = 0 then Inl ZeroDivisionError
            else Inr ((CLR + (1 / oc_Sx_sim oc) * oc_lambda_SR oc * (C0_SR_filtered - CLR))
                        * BR * dt_h * deposition_fraction Dv 0.3 * (1 - eta_in)))
         else Inr (CLR * BR * dt_h * deposition_fraction Dv 0.3 * (1 - eta_in)))"

fun accumulate_bins ::
  "(real \<Rightarrow> py_exception + real) \<Rightarrow> (real \<times> real) list \<Rightarrow> real \<Rightarrow> py_exception + real" where
  \<comment> \<open>the loop over the size grid: \<^verbatim>\<open>person_dose += dose_increment * width\<close>\<close>
  "accumulate_bins f [] person_dose = Inr person_dose"
| "accumulate_bins f ((Dv, width) # rest) person_dose =
     (case f Dv of
        Inl e \<Rightarrow> Inl e
      | Inr d \<Rightarrow> accumulate_bins f rest (person_dose + d * width))"

fun sample_people ::
  "nat \<Rightarrow> real vals \<Rightarrow> inputs \<Rightarrow> real \<Rightarrow> real \<Rightarrow> real \<Rightarrow> real \<Rightarrow> rng
     \<Rightarrow> py_exception + (real \<times> rng)" where
  \<comment> \<open>the loop over the occupants; the fifth real is the dose accumulated so far\<close>
  "sample_people 0 rv inp iem om BR total_dose g = Inr (total_dose, g)"
| "sample_people (Suc k) rv inp iem om BR total_dose g =
     (let (u, g1) = np_random g;
          is_infectious = (u < covid_prevalence_val rv)
      in if is_infectious then
           (let (oc, g2) = sample_occupant rv inp g1
            in case accumulate_bins (dose_increment rv inp iem om BR oc) (zip Ds dDs) 0 of
                 Inl e \<Rightarrow> Inl e
               | Inr person_dose \<Rightarrow> sample_people k rv inp iem om BR (total_dose + person_dose) g2)
         else sample_people k rv inp iem om BR total_dose g1)"

definition protection_factor :: "real \<Rightarrow> rng \<Rightarrow> real \<times> rng" where
  "protection_factor immune g =
     (let PF_MAX = 50.0 in
      if immune \<le> 0 then (PF_MAX, g)
      else (let SIGMA_PF = 0.2;
                mu_ln = ln (1.0 / immune);
                (PF, g') = np_lognormal mu_ln SIGMA_PF g
            in (if PF > PF_MAX then PF_MAX else PF, g')))"

definition trial :: "real vals \<Rightarrow> inputs \<Rightarrow> real \<Rightarrow> rng \<Rightarrow> py_exception + (real \<times> rng)" where
  "trial rv inp iem g =
     (let (omicron_val_sim, g1) = sample_omicron_transmissibility_bayesian g;
          (ID50, g2) = np_uniform 10 100 g1;
          (BR, g3) = sample_breathing_rate (in_user_physical_activity inp) g2
      in case sample_people (nat (N_val rv)) rv inp iem omicron_val_sim BR 0 g3 of
           Inl e \<Rightarrow> Inl e
         | Inr (total_dose, g4) \<Rightarrow>
             (let ID63 = oneoverln2 * ID50;
                  (PF, g5) = protection_factor (immune_val rv) g4;
                  ID63_pf = ID63 * PF;
                  risk_pf = 1.0 - exp (- total_dose / ID63_pf)
              in Inr (risk_pf, g5)))"

fun simulations ::
  "nat \<Rightarrow> real vals \<Rightarrow> inputs \<Rightarrow> real \<Rightarrow> rng \<Rightarrow> py_exception + (real list \<times> rng)" where
  \<comment> \<open>the trial loop; the list is \<^verbatim>\<open>all_risks_pf\<close> in trial order\<close>
  "simulations 0 rv inp iem g = Inr ([], g)"
| "simulations (Suc n) rv inp iem g =
     (case trial rv inp iem g of
        Inl e \<Rightarrow> Inl e
      | Inr (risk_pf, g1) \<Rightarrow>
          (case simulations n rv inp iem g1 of
             Inl e \<Rightarrow> Inl e
           | Inr (rest, g2) \<Rightarrow> Inr (risk_pf # rest, g2)))"

definition adaptive_n_sims :: "real \<Rightarrow> nat" where
  "adaptive_n_sims expected_infectious =
     (if expected_infectious < 0.5 then 25000
      else if expected_infectious < 2.0 then 8000
      else if expected_infectious < 5.0 then 2000
      else if expected_infectious < 10.0 then 1000
      else 300)"

definition expected_infectious :: "real vals \<Rightarrow> real" where
  "expected_infectious rv = real_of_int (N_val rv) * covid_prevalence_val rv"


section \<open>Summary statistics and the risk distribution\<close>

text \<open>
  NumPy routines used by \<^verbatim>\<open>calculators/risk_distribution.py\<close> and by the engine's
  summary, over the reals. \<^verbatim>\<open>np.percentile\<close> interpolates linearly between the two order
  statistics around the position \<open>(n - 1) * q / 100\<close>; it is called on non-empty arrays
  only (on an empty array NumPy yields NaN, here the value is unspecified).
  \<^verbatim>\<open>np.arange\<close> has \<open>\<lceil>(stop - start) / step\<rceil>\<close> elements and raises when the step is
  zero. \<^verbatim>\<open>np.histogram\<close> with explicit edges refuses edges that decrease, counts through
  cumulative counts (the last bin is closed on the right) and drops what lies outside the
  edges.
\<close>

definition percentile :: "real list \<Rightarrow> real \<Rightarrow> real" where
  "percentile a q =
     (let s = sort a; n = length a;
          h = real (n - 1) * (q / 100);
          lo = nat \<lfloor>h\<rfloor>;
          hi = min (lo + 1) (n - 1);
          t = h - real lo
      in s ! lo + t * (s ! hi - s ! lo))"

definition np_mean :: "real list \<Rightarrow> real" where
  "np_mean a = sum_list a / real (length a)"

definition np_std :: "real list \<Rightarrow> real" where
  "np_std a = sqrt (np_mean (map (\<lambda>v. (v - np_mean a) ^ 2) a))"

definition py_round :: "real \<Rightarrow> int" where
  \<comment> \<open>\<^verbatim>\<open>round\<close> with one argument: to the nearest integer, a tie to the even one\<close>
  "py_round v = (let f = \<lfloor>v\<rfloor>; d = v - of_int f in
     if d < 1 / 2 then f else if d > 1 / 2 then f + 1 else if even f then f else f + 1)"

definition np_arange :: "real \<Rightarrow> real \<Rightarrow> real \<Rightarrow> py_exception + real list" where
  "np_arange start stop step =
     (if step = 0 then Inl ArangeError
      else Inr (map (\<lambda>i. start + real i * step) [0..<nat \<lceil>(stop - start) / step\<rceil>]))"

fun np_diff :: "int list \<Rightarrow> int list" where
  "np_diff (a # b # rest) = (b - a) # np_diff (b # rest)"
| "np_diff rest = []"

fun decreases :: "real list \<Rightarrow> bool" where
  \<comment> \<open>\<^verbatim>\<open>np.any(bin_edges[:-1] > bin_edges[1:])\<close>\<close>
  "decreases (a # b # rest) = (a > b \<or> decreases (b # rest))"
| "decreases rest = False"

definition count_where :: "(real \<Rightarrow> bool) \<Rightarrow> real list \<Rightarrow> int" where
  "count_where P a = int (length (filter P a))"

definition np_histogram :: "real list \<Rightarrow> real list \<Rightarrow> py_exception + (int list \<times> real list)" where
  "np_histogram a bins =
     (if decreases bins then Inl (ValueError ''`bins` must increase monotonically, when an array'')
      else (let cum_n = (if bins = [] then []
                         else map (\<lambda>e. count_where (\<lambda>v. v < e) a) (butlast bins)
                              @ [count_where (\<lambda>v. v \<le> last bins) a])
            in Inr (np_diff cum_n, bins)))"

definition calculate_optimal_axes :: "real list \<Rightarrow> real \<times> real \<times> real" where
  "calculate_optimal_axes risk_array =
     (let p95 = percentile risk_array 95;
          p5 = percentile risk_array 5;
          x_max = p95 * 1.2;
          x_min = max 0 (p5 * 0.8);
          tick_interval = (if x_max < 0.01 then 0.001 else if x_max < 0.1 then 0.01 else 0.05)
      in (x_min, x_max, tick_interval))"

definition smart_bin_width :: "real \<Rightarrow> real \<Rightarrow> real" where
  \<comment> \<open>the bin width of \<^verbatim>\<open>create_smart_bins\<close>, rounded to a readable increment\<close>
  "smart_bin_width x_min x_max =
     (let target_bins = 20;
          bin_width = (x_max - x_min) / target_bins
      in if bin_width < 0.001 then real_of_int (py_round (bin_width * 10000)) / 10000
         else if bin_width < 0.01 then real_of_int (py_round (bin_width * 1000)) / 1000
         else real_of_int (py_round (bin_width * 100)) / 100)"

definition create_smart_bins :: "real list \<Rightarrow> real \<Rightarrow> real \<Rightarrow> py_exception + real list" where
  "create_smart_bins risk_array x_min x_max =
     (let bin_width = smart_bin_width x_min x_max
      in np_arange x_min (x_max + bin_width) bin_width)"

record statistics =
  st_mean :: real
  st_median :: real
  st_p5 :: real
  st_p25 :: real
  st_p75 :: real
  st_p95 :: real
  st_std :: real
  st_skewness :: pyfloat
  st_pct_above_mean :: real
  st_pct_above_p95 :: real
  st_range_51_ci :: "real \<times> real"
  st_range_90_ci :: "real \<times> real"

definition calculate_risk_statistics :: "real list \<Rightarrow> statistics" where
  \<comment> \<open>the skewness divides by the standard deviation: NaN when all values are equal\<close>
  "calculate_risk_statistics risk_array =
     (let mean_risk = np_mean risk_array;
          median_risk = percentile risk_array 50;
          p25 = percentile risk_array 25;
          p75 = percentile risk_array 75;
          p5 = percentile risk_array 5;
          p95 = percentile risk_array 95;
          pct_above_mean = np_mean (map (\<lambda>v. if v > mean_risk then 1 else 0) risk_array) * 100;
          pct_above_p95 = np_mean (map (\<lambda>v. if v > p95 then 1 else 0) risk_array) * 100;
          sd = np_std risk_array;
          skewness = (if sd = 0 then NaN
                      else Finite (np_mean (map (\<lambda>v. ((v - mean_risk) / sd) ^ 3) risk_array)))
      in \<lparr>st_mean = mean_risk, st_median = median_risk, st_p5 = p5, st_p25 = p25, st_p75 = p75,
          st_p95 = p95, st_std = sd, st_skewness = skewness,
          st_pct_above_mean = pct_above_mean, st_pct_above_p95 = pct_above_p95,
          st_range_51_ci = (p25, p75), st_range_90_ci = (p5, p95)\<rparr>)"

record histogram =
  h_counts :: "int list"
  h_edges :: "real list"
  h_total_simulations :: nat
  h_max_count :: int

record axis_config =
  ax_x_min :: real
  ax_x_max :: real
  ax_tick_interval :: real

record risk_distribution =
  rd_histogram :: histogram
  rd_statistics :: statistics
  rd_axis_config :: axis_config

text \<open>
  The returned object also carries interpretation sentences and constant metadata, built
  by string formatting of the statistics; they raise nothing and are left out.
\<close>

definition generate_risk_distribution_data :: "real list \<Rightarrow> py_exception + risk_distribution" where
  "generate_risk_distribution_data all_risks_array =
     (if length all_risks_array = 0 then Inl (ValueError ''Risk array is empty'')
      else if list_ex (\<lambda>v. v < 0) all_risks_array \<or> list_ex (\<lambda>v. v > 1) all_risks_array
        then Inl (ValueError ''Risk values must be between 0 and 1'')
      else (let (x_min, x_max, tick_interval) = calculate_optimal_axes all_risks_array
            in case create_smart_bins all_risks_array x_min x_max of
                 Inl e \<Rightarrow> Inl e
               | Inr bins \<Rightarrow>
                   (case np_histogram all_risks_array bins of
                      Inl e \<Rightarrow> Inl e
                    | Inr (cnts, edgs) \<Rightarrow>
                        Inr \<lparr>rd_histogram =
                               \<lparr>h_counts = cnts, h_edges = edgs,
                                h_total_simulations = length all_risks_array,
                                h_max_count = (if length cnts > 0 then Max (set cnts) else 0)\<rparr>,
                             rd_statistics = calculate_risk_statistics all_risks_array,
                             rd_axis_config =
                               \<lparr>ax_x_min = x_min, ax_x_max = x_max,
                                ax_tick_interval = tick_interval\<rparr>\<rparr>)))"


section \<open>The engine\<close>

text \<open>
  The result of \<^verbatim>\<open>calculate_unified_transmission_exposure\<close> is a dictionary, a map from
  keys to values. The call returns a dictionary (with the generator as the draws left
  it), or an exception escapes it. A configuration that passes validation with an
  infinite or NaN field enters IEEE arithmetic that the reals do not describe: the model
  stops there with \<open>NonFinite\<close>. On finite fields \<^verbatim>\<open>math.floor\<close> is the floor of the exact
  product; the \<^verbatim>\<open>OverflowError\<close> it raises in the program when
  \<^verbatim>\<open>N_val * percentage_masked_val\<close> leaves the double range is not modelled.
\<close>

datatype pv = VFloat pyfloat | VInt int | VStr string | VNone
  | VDict "(string \<times> pv) list" | VDist risk_distribution

datatype outcome = Returned "string \<Rightarrow> pv option" rng | Raised py_exception | NonFinite

definition activity_map :: "string \<Rightarrow> string option" where
  "activity_map = [''1'' \<mapsto> ''Sedentary/Passive'', ''2'' \<mapsto> ''Standard'', ''3'' \<mapsto> ''Light'',
                   ''4'' \<mapsto> ''Moderate'', ''5'' \<mapsto> ''Intense'']"

definition base_result :: "real vals \<Rightarrow> inputs \<Rightarrow> (string \<Rightarrow> pv option)" where
  \<comment> \<open>the dictionary as it stands before the trials\<close>
  "base_result rv inp =
     (let Q0_val' = Q0_val rv * f_e_val rv * omicron_val rv;
          p_val' = p_val rv * f_i_val rv;
          q_total = (ACH_val rv * room_volume_val rv * 1000) / 3600;
          q_e = q_total;
          activity_choice = (if activity_map (in_activity_choice inp) = None then ''2''
                             else in_activity_choice inp);
          activity_label = the (activity_map activity_choice);
          N_masked = \<lfloor>real_of_int (N_val rv) * percentage_masked_val rv\<rfloor>;
          N_unmasked = N_val rv - N_masked
      in [''risk'' \<mapsto> VInt 0,
          ''q_e'' \<mapsto> VFloat (Finite q_e),
          ''ACH'' \<mapsto> VFloat (Finite (ACH_val rv)),
          ''room_volume'' \<mapsto> VFloat (Finite (room_volume_val rv)),
          ''activity_label'' \<mapsto> VStr activity_label,
          ''inputs'' \<mapsto> VDict
             [(''C0'', VFloat (Finite (C0_val rv))),
              (''Q0'', VFloat (Finite Q0_val')),
              (''p'', VFloat (Finite p_val')),
              (''delta_t'', VFloat (Finite (delta_t_val rv))),
              (''x'', VFloat (Finite (x_val rv))),
              (''gamma'', VFloat (Finite (gamma_val rv))),
              (''activity_choice'', VStr activity_choice),
              (''f_e'', VFloat (Finite (f_e_val rv))),
              (''f_i'', VFloat (Finite (f_i_val rv))),
              (''omicron'', VFloat (Finite (omicron_val rv))),
              (''covid_prevalence'', VFloat (Finite (covid_prevalence_val rv))),
              (''immune'', VFloat (Finite (immune_val rv))),
              (''N'', VInt (N_val rv)),
              (''percentage_masked'', VFloat (Finite (percentage_masked_val rv)))],
          ''N_masked'' \<mapsto> VInt N_masked,
          ''N_unmasked'' \<mapsto> VInt N_unmasked])"

definition array_mean :: "real list \<Rightarrow> pyfloat" where
  \<comment> \<open>\<^verbatim>\<open>float(a.mean())\<close>\<close>
  "array_mean a = (if a = [] then NaN else Finite (np_mean a))"

definition array_percentile :: "real list \<Rightarrow> real \<Rightarrow> pyfloat" where
  \<comment> \<open>\<^verbatim>\<open>float(np.percentile(a, q))\<close>\<close>
  "array_percentile a q = (if a = [] then NaN else Finite (percentile a q))"

definition summarize :: "(string \<Rightarrow> pv option) \<Rightarrow> real list \<Rightarrow> (string \<Rightarrow> pv option)" where
  \<comment> \<open>the scalar statistics, the back-compatible keys and the guarded distribution object\<close>
  "summarize result all_risks_pf =
     (let mc_mean_pf = VFloat (array_mean all_risks_pf);
          mc_pf_ci_5 = VFloat (array_percentile all_risks_pf 5);
          mc_pf_ci_95 = VFloat (array_percentile all_risks_pf 95);
          mc_pf_ci_25 = VFloat (array_percentile all_risks_pf 25);
          mc_pf_ci_75 = VFloat (array_percentile all_risks_pf 75);
          mc_pf_ci_0_5 = VFloat (array_percentile all_risks_pf 0.5);
          mc_pf_ci_99_5 = VFloat (array_percentile all_risks_pf 99.5);
          mc_pf_median = VFloat (array_percentile all_risks_pf 50)
      in result
          (''mc_mean_pf'' \<mapsto> mc_mean_pf,
           ''mc_pf_ci_5'' \<mapsto> mc_pf_ci_5,
           ''mc_pf_ci_95'' \<mapsto> mc_pf_ci_95,
           ''mc_pf_ci_25'' \<mapsto> mc_pf_ci_25,
           ''mc_pf_ci_75'' \<mapsto> mc_pf_ci_75,
           ''mc_pf_ci_0_5'' \<mapsto> mc_pf_ci_0_5,
           ''mc_pf_ci_99_5'' \<mapsto> mc_pf_ci_99_5,
           ''mc_pf_median'' \<mapsto> mc_pf_median,
           ''risk'' \<mapsto> mc_mean_pf,
           ''mc_mean'' \<mapsto> mc_mean_pf,
           ''mc_median'' \<mapsto> mc_pf_median,
           ''mc_ci_5'' \<mapsto> mc_pf_ci_5,
           ''mc_ci_95'' \<mapsto> mc_pf_ci_95,
           ''mc_ci_25'' \<mapsto> mc_pf_ci_25,
           ''mc_ci_75'' \<mapsto> mc_pf_ci_75,
           ''mc_ci_0_5'' \<mapsto> mc_pf_ci_0_5,
           ''mc_ci_99_5'' \<mapsto> mc_pf_ci_99_5,
           ''risk_distribution_data'' \<mapsto>
              (case generate_risk_distribution_data all_risks_pf of
                 Inr risk_distribution_data \<Rightarrow> VDist risk_distribution_data
               | Inl e \<Rightarrow> VNone)))"

definition error_result :: "string \<Rightarrow> pv option" where
  "error_result = [''error'' \<mapsto> VStr ''Invalid input; please enter numeric values.'']"

definition calculate_unified_transmission_exposure :: "inputs \<Rightarrow> rng \<Rightarrow> outcome" where
  "calculate_unified_transmission_exposure inp g =
     (let immune_emission_multiplier =
            get_immune_emission_multiplier (in_immunocompromised_status inp);
          (errors, v) = validate inp
      in if py_any errors then Returned error_result g
         else if \<not> vals_finite v then NonFinite
         else (let rv = real_vals v;
                   result = base_result rv inp;
                   n_sims = adaptive_n_sims (expected_infectious rv)
               in case simulations n_sims rv inp immune_emission_multiplier g of
                    Inl e \<Rightarrow> Raised e
                  | Inr (all_risks_pf, g') \<Rightarrow> Returned (summarize result all_risks_pf) g'))"

section \<open>Vocabulary of the statements\<close>

text \<open>
  Predicates on the input values, a reference configuration (the call of the module's
  \<^verbatim>\<open>__main__\<close> block: every numeric field empty), a constant generator, and readers of
  the engine's outcome.
\<close>

fun non_string :: "pyval \<Rightarrow> bool" where
  "non_string (PyStr s) = False"
| "non_string v = True"

fun whitespace_only :: "pyval \<Rightarrow> bool" where
  "whitespace_only (PyStr s) = list_all is_space s"
| "whitespace_only v = False"

fun rejected_float :: "pyval \<Rightarrow> bool" where
  "rejected_float (PyStr s) = (py_strip s \<noteq> [] \<and> py_float (py_strip s) = None)"
| "rejected_float v = False"

fun rejected_int :: "pyval \<Rightarrow> bool" where
  "rejected_int (PyStr s) = (py_strip s \<noteq> [] \<and> py_int (py_strip s) = None)"
| "rejected_int v = False"

definition float_args :: "inputs \<Rightarrow> pyval list" where
  "float_args inp = [in_C0 inp, in_Q0 inp, in_p inp, in_ACH inp, in_room_volume inp,
     in_delta_t inp, in_x inp, in_gamma inp, in_f_e inp, in_f_i inp, in_omicron inp,
     in_covid_prevalence inp, in_immune inp, in_percentage_masked inp]"

definition default_vals :: "pyfloat vals" where
  "default_vals = \<lparr>C0_val = Finite 0.1, Q0_val = Finite 0.1, p_val = Finite 0.1,
     ACH_val = Finite 1.0, room_volume_val = Finite 1000.0, delta_t_val = Finite 42.0,
     x_val = Finite 0.7, gamma_val = Finite 0.5, f_e_val = Finite 1.0, f_i_val = Finite 1.0,
     omicron_val = Finite 4.20, covid_prev_pct = Finite 1.0, immune_val = Finite 1.0,
     N_val = 1, percentage_masked_val = Finite 0.0\<rparr>"

definition rng_half :: rng where
  "rng_half = \<lparr>unif = (\<lambda>n. 1 / 2), gauss = (\<lambda>n. 0)\<rparr>"

definition default_inputs :: inputs where
  "default_inputs = \<lparr>in_C0 = PyStr [], in_Q0 = PyStr [], in_p = PyStr [], in_ACH = PyStr [],
     in_room_volume = PyStr [], in_delta_t = PyStr [], in_x = PyStr [], in_gamma = PyStr [],
     in_f_e = PyStr [], in_f_i = PyStr [], in_omicron = PyStr [], in_covid_prevalence = PyStr [],
     in_immune = PyStr [], in_N = PyStr [], in_activity_choice = [],
     in_percentage_masked = PyStr ''0'',
     in_user_physical_activity = ''standing'', in_others_physical_activity = ''standing'',
     in_others_vocal_activity = ''speaking'', in_RH = 0.40, in_CO2 = 800.0,
     in_inside_temp = 293.15, in_immunocompromised_status = ''normal''\<rparr>"

definition grid_point :: "nat \<Rightarrow> real" where
  "grid_point i = 10 powr (log 10 0.1 + real i * ((log 10 30 - log 10 0.1) / 49))"

definition rng_ok :: "rng \<Rightarrow> bool" where
  "rng_ok g = (\<forall>n. 0 \<le> unif g n \<and> unif g n < 1)"

definition dose_scale :: "real vals \<Rightarrow> real" where
  "dose_scale rv = delta_t_val rv / 3600 * f_i_val rv"

definition risk_keys :: "string list" where
  "risk_keys = [''risk'', ''mc_mean_pf'', ''mc_pf_median'', ''mc_pf_ci_5'', ''mc_pf_ci_95'',
     ''mc_pf_ci_25'', ''mc_pf_ci_75'', ''mc_pf_ci_0_5'', ''mc_pf_ci_99_5'']"

fun result_at :: "outcome \<Rightarrow> string \<Rightarrow> pv option" where
  "result_at (Returned d g) k = d k"
| "result_at (Raised e) k = None"
| "result_at NonFinite k = None"

definition float_at :: "outcome \<Rightarrow> string \<Rightarrow> real option" where
  "float_at out k = (case result_at out k of Some (VFloat (Finite r)) \<Rightarrow> Some r | _ \<Rightarrow> None)"

definition unit_risk :: "outcome \<Rightarrow> string \<Rightarrow> bool" where
  "unit_risk out k = (case float_at out k of Some r \<Rightarrow> 0 \<le> r \<and> r \<le> 1 | None \<Rightarrow> False)"

definition negative_risk :: "outcome \<Rightarrow> string \<Rightarrow> bool" where
  "negative_risk out k = (case float_at out k of Some r \<Rightarrow> r < 0 | None \<Rightarrow> False)"

definition blank_volume_inputs :: inputs where
  "blank_volume_inputs = default_inputs\<lparr>in_room_volume := PyStr '' ''\<rparr>"

definition abc_volume_inputs :: inputs where
  "abc_volume_inputs = default_inputs\<lparr>in_room_volume := PyStr ''abc''\<rparr>"

definition negative_duration_inputs :: inputs where
  "negative_duration_inputs =
     default_inputs\<lparr>in_delta_t := PyStr ''-3600'', in_covid_prevalence := PyStr ''100''\<rparr>"

definition numeric_inputs :: inputs where
  "numeric_inputs = \<lparr>in_C0 = PyFloat (Finite 5), in_Q0 = PyNone, in_p = PyInt 3, in_ACH = PyStr ''  '',
     in_room_volume = PyFloat (Finite 50), in_delta_t = PyNone, in_x = PyFloat (Finite 2),
     in_gamma = PyNone, in_f_e = PyNone, in_f_i = PyNone, in_omicron = PyNone,
     in_covid_prevalence = PyFloat (Finite 5), in_immune = PyNone, in_N = PyInt 30,
     in_activity_choice = ''2'', in_percentage_masked = PyBool True,
     in_user_physical_activity = ''standing'', in_others_physical_activity = ''standing'',
     in_others_vocal_activity = ''speaking'', in_RH = 0.40, in_CO2 = 800.0,
     in_inside_temp = 293.15, in_immunocompromised_status = ''normal''\<rparr>"

definition nonfinite_text :: "pyval \<Rightarrow> bool" where
  "nonfinite_text val = (case drop_underscores (strip_value val) of
       None \<Rightarrow> False
     | Some t \<Rightarrow> (case parse_inf_or_nan t of
           Some f \<Rightarrow> True
         | None \<Rightarrow> (case parse_decimal t of
               Some r \<Rightarrow> 2 ^ 1024 - 2 ^ 970 \<le> \<bar>r\<bar>
             | None \<Rightarrow> False)))"

definition inf_volume_inputs :: inputs where
  "inf_volume_inputs = default_inputs\<lparr>in_room_volume := PyStr ''inf'', in_x := PyStr ''nan''\<rparr>"

definition occupancy :: "int \<Rightarrow> real \<Rightarrow> real vals" where
  "occupancy n pct = (real_vals default_vals)\<lparr>N_val := n, covid_prev_pct := pct\<rparr>"


definition histogram_bins :: "real list \<Rightarrow> real list" where
  "histogram_bins a = (let (x_min, x_max, tick) = calculate_optimal_axes a;
       w = smart_bin_width x_min x_max
     in map (\<lambda>i. x_min + real i * w) [0..<nat \<lceil>(x_max + w - x_min) / w\<rceil>])"

section \<open>Auxiliary facts\<close>

lemma telescope2:
  fixes d :: "nat \<Rightarrow> real"
  shows "(\<Sum>i = 1..<Suc (Suc m). (d (i + 1) - d (i - 1)) / 2) = (d (m + 2) + d (m + 1) - d 1 - d 0) / 2"
  by (induction m) (simp_all add: field_simps)

lemma bin_widths_sum:
  assumes "3 \<le> length ds"
  shows "sum_list (bin_widths ds) =
           (ds ! (length ds - 1) - ds ! 0) + (ds ! 1 - ds ! 0) / 2
             + (ds ! (length ds - 1) - ds ! (length ds - 2)) / 2"
proof -
  obtain m where n: "length ds = Suc (Suc (Suc m))"
    using assms by (metis Suc_le_D numeral_3_eq_3 Suc_le_mono)
  let ?f = "\<lambda>i. if i = 0 then ds ! 1 - ds ! 0
              else if i = length ds - 1 then ds ! (length ds - 1) - ds ! (length ds - 2)
              else (ds ! (i + 1) - ds ! (i - 1)) / 2"
  have "sum_list (bin_widths ds) = (\<Sum>i = 0..<length ds. ?f i)"
    by (simp add: bin_widths_def Let_def interv_sum_list_conv_sum_set_nat)
  also have "\<dots> = ?f 0 + (\<Sum>i = 1..<Suc (Suc m). ?f i) + ?f (Suc (Suc m))"
    by (simp add: n sum.atLeast_Suc_lessThan)
  also have "(\<Sum>i = 1..<Suc (Suc m). ?f i) = (\<Sum>i = 1..<Suc (Suc m). (ds ! (i + 1) - ds ! (i - 1)) / 2)"
    by (rule sum.cong) (auto simp: n)
  also have "\<dots> = (ds ! (m + 2) + ds ! (m + 1) - ds ! 1 - ds ! 0) / 2"
    by (rule telescope2)
  finally show ?thesis by (simp add: n field_simps)
qed

lemma length_Ds: "length Ds = 50"
  by (simp add: Ds_def logspace_def linspace_def)

lemma Ds_nth: "i < 50 \<Longrightarrow> Ds ! i = grid_point i"
  by (simp add: Ds_def logspace_def linspace_def grid_point_def)

lemma grid_point_mono: "i < j \<Longrightarrow> grid_point i < grid_point j"
proof -
  assume "i < j"
  have "log 10 0.1 < log 10 (30::real)" by simp
  then have "0 < (log 10 30 - log 10 0.1) / (49::real)" by simp
  then have "real i * ((log 10 30 - log 10 0.1) / 49) < real j * ((log 10 30 - log 10 0.1) / 49)"
    using \<open>i < j\<close> by simp
  then show ?thesis by (simp add: grid_point_def)
qed

lemma Ds_0: "Ds ! 0 = 0.1" by (simp add: Ds_nth grid_point_def)

lemma lin_end: "a + real 49 * ((b - a) / 49) = (b::real)"
proof -
  have "(49::real) * ((b - a) / 49) = b - a" by simp
  moreover have "real 49 = (49::real)" by simp
  ultimately have "real 49 * ((b - a) / 49) = b - a" by (simp only:)
  then show ?thesis by linarith
qed

lemma Ds_49: "Ds ! 49 = 30"
proof -
  have "grid_point 49 = 10 powr (log 10 30)"
    unfolding grid_point_def by (simp only: lin_end)
  then show ?thesis by (simp add: Ds_nth)
qed

lemma width_pos:
  assumes "i < 50"
  shows "0 < (if i = 0 then Ds ! 1 - Ds ! 0
              else if i = 50 - 1 then Ds ! (50 - 1) - Ds ! (50 - 2)
              else (Ds ! (i + 1) - Ds ! (i - 1)) / 2)"
proof -
  have "grid_point 0 < grid_point 1" "grid_point 48 < grid_point 49"
    "grid_point (i - 1) < grid_point (i + 1)"
    by (simp_all add: grid_point_mono)
  then show ?thesis using assms by (simp add: Ds_nth)
qed

lemma dDs_pos: "list_all (\<lambda>w. 0 < w) dDs"
proof -
  have "\<forall>i\<in>set [0..<50]. 0 < (if i = 0 then Ds ! 1 - Ds ! 0
              else if i = 50 - 1 then Ds ! (50 - 1) - Ds ! (50 - 2)
              else (Ds ! (i + 1) - Ds ! (i - 1)) / 2)"
    using width_pos by (simp del: One_nat_def)
  then show ?thesis
    unfolding dDs_def bin_widths_def Let_def length_Ds list_all_iff set_map by blast
qed

lemma dDs_sum: "sum_list dDs = (Ds ! 49 - Ds ! 0) + (Ds ! 1 - Ds ! 0) / 2 + (Ds ! 49 - Ds ! 48) / 2"
  using bin_widths_sum [of Ds] by (simp add: dDs_def length_Ds)

lemma strip_blank: "list_all is_space s \<Longrightarrow> py_strip s = []"
proof -
  assume "list_all is_space s"
  then have "dropWhile is_space s = []" by (induction s) auto
  then show ?thesis unfolding py_strip_def by (simp only: rev.simps dropWhile.simps)
qed

lemma strip_value_blank: "non_string val \<or> whitespace_only val \<Longrightarrow> strip_value val = []"
  by (cases val) (auto simp: strip_blank)

lemma safe_float_err: "snd (safe_float val d) \<noteq> [] \<longleftrightarrow> rejected_float val"
  by (cases val) (auto simp: safe_float_def Let_def split: option.splits)

lemma safe_int_err: "snd (safe_int val d) \<noteq> [] \<longleftrightarrow> rejected_int val"
  by (cases val) (auto simp: safe_int_def Let_def split: option.splits)

lemma safe_float_default: "strip_value val = [] \<Longrightarrow> safe_float val d = (d, [])"
  by (simp add: safe_float_def)

lemma safe_int_default: "strip_value val = [] \<Longrightarrow> safe_int val n = (n, [])"
  by (simp add: safe_int_def)

lemma fst_validate: "fst (validate inp) =
  [snd (safe_float (in_C0 inp) (Finite 0.1)), snd (safe_float (in_Q0 inp) (Finite 0.1)),
   snd (safe_float (in_p inp) (Finite 0.1)), snd (safe_float (in_ACH inp) (Finite 1.0)),
   snd (safe_float (in_room_volume inp) (Finite 1000.0)), snd (safe_float (in_delta_t inp) (Finite 42.0)),
   snd (safe_float (in_x inp) (Finite 0.7)), snd (safe_float (in_gamma inp) (Finite 0.5)),
   snd (safe_float (in_f_e inp) (Finite 1.0)), snd (safe_float (in_f_i inp) (Finite 1.0)),
   snd (safe_float (in_omicron inp) (Finite 4.20)), snd (safe_float (in_covid_prevalence inp) (Finite 1.0)),
   snd (safe_float (in_immune inp) (Finite 1.0)), snd (safe_int (in_N inp) 1),
   snd (safe_float (in_percentage_masked inp) (Finite 0.0))]"
  by (simp add: validate_def Let_def split_beta)

lemma snd_validate: "snd (validate inp) =
  \<lparr>C0_val = fst (safe_float (in_C0 inp) (Finite 0.1)), Q0_val = fst (safe_float (in_Q0 inp) (Finite 0.1)),
   p_val = fst (safe_float (in_p inp) (Finite 0.1)), ACH_val = fst (safe_float (in_ACH inp) (Finite 1.0)),
   room_volume_val = fst (safe_float (in_room_volume inp) (Finite 1000.0)),
   delta_t_val = fst (safe_float (in_delta_t inp) (Finite 42.0)),
   x_val = fst (safe_float (in_x inp) (Finite 0.7)), gamma_val = fst (safe_float (in_gamma inp) (Finite 0.5)),
   f_e_val = fst (safe_float (in_f_e inp) (Finite 1.0)), f_i_val = fst (safe_float (in_f_i inp) (Finite 1.0)),
   omicron_val = fst (safe_float (in_omicron inp) (Finite 4.20)),
   covid_prev_pct = fst (safe_float (in_covid_prevalence inp) (Finite 1.0)),
   immune_val = fst (safe_float (in_immune inp) (Finite 1.0)), N_val = fst (safe_int (in_N inp) 1),
   percentage_masked_val = fst (safe_float (in_percentage_masked inp) (Finite 0.0))\<rparr>"
  by (simp add: validate_def Let_def split_beta)

lemma py_any_validate:
  "py_any (fst (validate inp)) \<longleftrightarrow> list_ex rejected_float (float_args inp) \<or> rejected_int (in_N inp)"
  unfolding fst_validate py_any_def float_args_def
  by (simp add: safe_float_err safe_int_err del: rejected_float.simps rejected_int.simps) blast

lemma np_random_half: "np_random rng_half = (1 / 2, rng_half)"
  by (simp add: np_random_def rng_half_def)

lemma np_normal_half: "np_normal m s rng_half = (m, rng_half)"
  by (simp add: np_normal_def rng_half_def)

lemma simulations_length:
  "simulations n rv inp iem g = Inr (rs, g') \<Longrightarrow> length rs = n"
  by (induction n arbitrary: g rs g') (auto split: sum.splits prod.splits)

lemma sample_people_none:
  "covid_prevalence_val rv \<le> 1 / 2 \<Longrightarrow>
   sample_people k rv inp iem om BR td rng_half = Inr (td, rng_half)"
  by (induction k) (simp_all add: np_random_half)

lemma trial_none:
  assumes "covid_prevalence_val rv \<le> 1 / 2"
  shows "trial rv inp iem rng_half = Inr (0, rng_half)"
proof -
  have pf: "snd (protection_factor im rng_half) = rng_half" for im
    by (simp add: protection_factor_def Let_def np_lognormal_def np_normal_half)
  show ?thesis
    using pf [of "immune_val rv"]
    by (simp add: trial_def sample_omicron_transmissibility_bayesian_def np_normal_half Let_def
        np_uniform_def np_random_half sample_breathing_rate_def np_lognormal_def
        sample_people_none [OF assms] split_beta)
qed

lemma simulations_none:
  assumes "covid_prevalence_val rv \<le> 1 / 2"
  shows "simulations n rv inp iem rng_half = Inr (replicate n 0, rng_half)"
  by (induction n) (simp_all add: trial_none [OF assms])

lemma validate_default: "validate default_inputs = (replicate 15 [], default_vals)"
  by (simp add: default_inputs_def float_args_def safe_float_def safe_int_def validate_def
      py_strip_def is_space_def py_float_def drop_underscores_def parse_inf_or_nan_def split_sign_def
      to_lower_def parse_decimal_def is_digit_def parse_exponent_def digits_val_def digit_val_def
      round_double_def default_vals_def numeral_eq_Suc)

lemma Ds_pos: "D \<in> set Ds \<Longrightarrow> 0 < D"
  by (auto simp: Ds_def logspace_def)

lemma mode_term_nonneg: "0 < D \<Longrightarrow> 0 \<le> mode_term D act m"
  by (cases m) (simp_all add: mode_term_def famp_def)

lemma mode_term_B_pos: "0 < D \<Longrightarrow> 0 < mode_term D act ModeB"
  by (simp add: mode_term_def famp_def)

lemma emission_pos:
  assumes "0 < D"
  shows "0 < emission_spectrum_henriques D act"
proof -
  have "0 < mode_term D act ModeB" "0 \<le> mode_term D act ModeL" "0 \<le> mode_term D act ModeO"
    using assms by (simp_all add: mode_term_B_pos mode_term_nonneg)
  moreover have "famp act ModeB > 0" by (simp add: famp_def)
  ultimately show ?thesis
    by (simp add: emission_spectrum_henriques_def add_pos_nonneg)
qed

lemma deposition_pos:
  assumes "0 < D"
  shows "0 < deposition_fraction D 0.3"
proof -
  define d where "d = D * 0.3"
  define c where "c = 0.00076 * (d powr 2.8)"
  define t where "t = 1 / (1 + c)"
  define A where "A = 0.911 / (1 + exp (4.77 + 1.485 * ln d))"
  define B where "B = 0.943 / (1 + exp (0.508 - 2.58 * ln d))"
  have "0 \<le> c" by (simp add: c_def)
  then have "t \<le> 1" "0 < t" by (simp_all add: t_def)
  then have I: "0 < 1 - 0.5 * (1 - t)" by argo
  have "0 < A" "0 < B" by (simp_all add: A_def B_def add_pos_pos)
  then have "0 < 0.0587 + A + B" by (intro add_pos_pos) simp_all
  with I have "0 < (1 - 0.5 * (1 - t)) * (0.0587 + A + B)"
    by (rule mult_pos_pos)
  then show ?thesis
    unfolding deposition_fraction_def Let_def d_def t_def c_def A_def B_def .
qed

lemma puff_form:
  fixes a z :: real
  shows "2 * (18 / 100) * a / (2 / 100) * (1 + (20 / 100) * z / ((18 / 100) * a)) ^ 3
           = 18 * a * (1 + (10 / 9) * z / a) ^ 3"
proof -
  have "(20 / 100) * z / ((18 / 100) * a) = (10 / 9) * z / a" by simp
  moreover have "2 * (18 / 100) * a / (2 / 100) = 18 * a" by simp
  ultimately show ?thesis by (simp only:)
qed

lemma sedimentation_nonneg: "0 \<le> sedimentation_rate D e"
  by (simp add: sedimentation_rate_def Let_def)

lemma inactivation_pos: "0 < viral_inactivation_rate_long D T RH"
  by (simp add: viral_inactivation_rate_long_def Let_def min_def)

lemma jet_u0_pos: "0 < BR \<Longrightarrow> 0 < jp_u0 (calculate_henriques_jet_parameters BR)"
  by (simp add: calculate_henriques_jet_parameters_def Let_def D_mouth_def)

lemma jet_x0_j: "jp_x0_j (calculate_henriques_jet_parameters BR) = 1 / 18"
  by (simp add: calculate_henriques_jet_parameters_def Let_def D_mouth_def beta_r_j_def)

lemma transition_pos:
  assumes "0 < BR"
  shows "0 < jp_x_transition (calculate_henriques_jet_parameters BR) + jp_x0_j (calculate_henriques_jet_parameters BR)"
proof -
  define Q where "Q = 2 * (BR / 3600)"
  define A where "A = pi * (D_mouth / 2) ^ 2"
  define t0 where "t0 = (sqrt pi * D_mouth ^ 3) / (8 * beta_r_j ^ 2 * beta_x_j ^ 2 * Q)"
  have q: "0 < Q" using assms by (simp add: Q_def)
  have A: "0 < A" by (simp add: A_def D_mouth_def)
  have t0: "0 < t0"
    using q by (simp add: t0_def D_mouth_def beta_r_j_def beta_x_j_def)
  have "0 < Q * (Q / A)" using q A by simp
  then have p1: "0 < (Q * (Q / A)) powr 0.25" using q A by simp
  have "0 < 4 / 2 + t0" using t0 by simp
  then have p2: "0 < (4 / 2 + t0) powr 0.5" by simp
  have pos: "0 < beta_x_j * ((Q * (Q / A)) powr 0.25) * ((4 / 2 + t0) powr 0.5)"
    using p1 p2 by (simp add: beta_x_j_def)
  have eq: "jp_x_transition (calculate_henriques_jet_parameters BR)
            + jp_x0_j (calculate_henriques_jet_parameters BR)
          = beta_x_j * ((Q * (Q / A)) powr 0.25) * ((4 / 2 + t0) powr 0.5)"
    unfolding calculate_henriques_jet_parameters_def Let_def Q_def A_def t0_def by simp
  show ?thesis unfolding eq by (rule pos)
qed

lemma dilution_ge_1:
  assumes "0 < BR" and "0 \<le> x"
  shows "1 \<le> dilution_factor x (calculate_henriques_jet_parameters BR)"
proof -
  let ?jp = "calculate_henriques_jet_parameters BR"
  define a where "a = jp_x_transition ?jp + jp_x0_j ?jp"
  have a: "0 < a" unfolding a_def using assms(1) by (rule transition_pos)
  have x0: "jp_x0_j ?jp = 1 / 18" by (rule jet_x0_j)
  show ?thesis
  proof (cases "x < jp_x_transition ?jp")
    case True
    then show ?thesis using assms(2)
      by (simp add: dilution_factor_def jet_dilution_def x0 beta_r_j_def D_mouth_def)
  next
    case False
    define y where "y = (10 / 9) * (x - jp_x_transition ?jp) / a"
    have y: "0 \<le> y" using False a by (simp add: y_def)
    have cube: "1 + y \<le> (1 + y) ^ 3"
    proof -
      have "(1 + y) ^ 3 - (1 + y) = y * (y + 1) * (y + 2)" by (simp add: power3_eq_cube algebra_simps)
      moreover have "0 \<le> y * (y + 1) * (y + 2)" using y by simp
      ultimately show ?thesis by linarith
    qed
    have "puff_dilution x ?jp = 18 * a * (1 + y) ^ 3"
      using puff_form [of a "x - jp_x_transition ?jp"]
      unfolding puff_dilution_def Let_def y_def a_def beta_r_j_def beta_r_p_def D_mouth_def
      by simp
    moreover have "18 * a * (1 + y) \<le> 18 * a * (1 + y) ^ 3"
      using cube a by simp
    moreover have "18 * a * (1 + y) = 18 * a + 20 * (x - jp_x_transition ?jp)"
      using a by (simp add: y_def field_simps)
    moreover have "18 * a + 20 * (x - jp_x_transition ?jp) \<ge> 18 * x + 1"
      using False by (simp add: a_def x0)
    ultimately have "18 * x + 1 \<le> puff_dilution x ?jp" by linarith
    then show ?thesis using False assms(2) by (simp add: dilution_factor_def)
  qed
qed

lemma decay_unit:
  assumes "0 \<le> x" and "0 < u0"
  shows "0 \<le> short_range_viability_decay x u0 RH \<and> short_range_viability_decay x u0 RH \<le> 1"
proof -
  have "0 \<le> x / u0" using assms by simp
  then show ?thesis
    by (simp add: short_range_viability_decay_def Let_def max_def)
qed

lemma np_random_ok:
  "rng_ok g \<Longrightarrow> 0 \<le> fst (np_random g) \<and> fst (np_random g) < 1 \<and> rng_ok (snd (np_random g))"
  by (simp add: rng_ok_def np_random_def)

lemma np_normal_ok: "rng_ok g \<Longrightarrow> rng_ok (snd (np_normal m s g))"
  by (simp add: rng_ok_def np_normal_def)

lemma np_lognormal_ok:
  "rng_ok g \<Longrightarrow> 0 < fst (np_lognormal m s g) \<and> rng_ok (snd (np_lognormal m s g))"
  by (simp add: np_lognormal_def split_beta np_normal_ok)

lemma np_uniform_ok:
  assumes "rng_ok g" and "lo \<le> hi"
  shows "lo \<le> fst (np_uniform lo hi g) \<and> rng_ok (snd (np_uniform lo hi g))"
proof -
  have "0 \<le> (hi - lo) * fst (np_random g)"
    using assms np_random_ok [of g] by simp
  then show ?thesis
    using assms np_random_ok [of g] by (simp add: np_uniform_def split_beta)
qed

lemma np_weibull_ok: "rng_ok g \<Longrightarrow> rng_ok (snd (np_weibull a g))"
  by (simp add: np_weibull_def split_beta np_random_ok)

lemma breathing_ok:
  "rng_ok g \<Longrightarrow> 0 < fst (sample_breathing_rate act g) \<and> rng_ok (snd (sample_breathing_rate act g))"
  by (simp add: sample_breathing_rate_def np_lognormal_ok)

lemma omicron_ok:
  "rng_ok g \<Longrightarrow> 0 < fst (sample_omicron_transmissibility_bayesian g)
     \<and> rng_ok (snd (sample_omicron_transmissibility_bayesian g))"
  by (simp add: sample_omicron_transmissibility_bayesian_def Let_def split_beta np_normal_ok
      np_clip_def min_def max_def)

lemma immune_multiplier_pos: "0 < get_immune_emission_multiplier st"
  by (simp add: get_immune_emission_multiplier_def)

lemma sample_occupant_ok:
  assumes "rng_ok g" and "0 \<le> x_val rv" and "0 \<le> f_e_val rv"
  shows "0 < oc_vlin (fst (sample_occupant rv inp g))
       \<and> 0 < oc_f_inf (fst (sample_occupant rv inp g))
       \<and> 0 < oc_others_BR (fst (sample_occupant rv inp g))
       \<and> 0 \<le> oc_exhalation_filter (fst (sample_occupant rv inp g))
       \<and> (0 < f_e_val rv \<longrightarrow> 0 < oc_exhalation_filter (fst (sample_occupant rv inp g)))
       \<and> 1 \<le> oc_Sx_sim (fst (sample_occupant rv inp g))
       \<and> 0 \<le> oc_lambda_SR (fst (sample_occupant rv inp g))
       \<and> oc_lambda_SR (fst (sample_occupant rv inp g)) \<le> 1
       \<and> rng_ok (snd (sample_occupant rv inp g))"
proof -
  define g1 where "g1 = snd (np_weibull 3.900 g)"
  define g2 where "g2 = snd (np_uniform 0.01 0.60 g1)"
  define g3 where "g3 = snd (sample_breathing_rate (in_others_physical_activity inp) g2)"
  define BRo where "BRo = fst (sample_breathing_rate (in_others_physical_activity inp) g2)"
  have g1: "rng_ok g1" unfolding g1_def using assms(1) by (rule np_weibull_ok)
  have u: "0.01 \<le> fst (np_uniform 0.01 0.60 g1)" and g2: "rng_ok g2"
    using np_uniform_ok [OF g1, of "0.01" "0.60"] by (simp_all add: g2_def)
  have BRo: "0 < BRo" and g3: "rng_ok g3"
    using breathing_ok [OF g2] by (simp_all add: BRo_def g3_def)
  have g4: "rng_ok (snd (np_random g3))" using np_random_ok [OF g3] by simp
  have S: "1 \<le> dilution_factor (x_val rv) (calculate_henriques_jet_parameters BRo)"
    using BRo assms(2) by (rule dilution_ge_1)
  have L: "0 \<le> short_range_viability_decay (x_val rv) (jp_u0 (calculate_henriques_jet_parameters BRo)) (in_RH inp)
      \<and> short_range_viability_decay (x_val rv) (jp_u0 (calculate_henriques_jet_parameters BRo)) (in_RH inp) \<le> 1"
    using assms(2) jet_u0_pos [OF BRo] by (rule decay_unit)
  have f: "0 < fst (np_uniform 0.01 0.60 g1)" using u by simp
  show ?thesis
    using g4 S L f BRo assms(3)
    unfolding g3_def BRo_def g2_def g1_def
    by (simp add: sample_occupant_def Let_def split_beta)
qed

lemma convex_pos:
  fixes a b r :: real
  assumes "0 \<le> r" "r \<le> 1" "0 < a" "0 < b"
  shows "0 < a + r * (b - a)"
proof -
  have "a + r * (b - a) = (1 - r) * a + r * b" by (simp add: algebra_simps)
  moreover have "0 < (1 - r) * a + r * b"
  proof (cases "r < 1")
    case True
    then have "0 < (1 - r) * a" using assms by simp
    moreover have "0 \<le> r * b" using assms by simp
    ultimately show ?thesis by linarith
  next
    case False
    then have "r = 1" using assms by simp
    then show ?thesis using assms by simp
  qed
  ultimately show ?thesis by simp
qed

lemma convex_nonneg:
  fixes a b r :: real
  assumes "0 \<le> r" "r \<le> 1" "0 \<le> a" "0 \<le> b"
  shows "0 \<le> a + r * (b - a)"
proof -
  have "a + r * (b - a) = (1 - r) * a + r * b" by (simp add: algebra_simps)
  moreover have "0 \<le> (1 - r) * a" "0 \<le> r * b" using assms by simp_all
  ultimately show ?thesis by linarith
qed

lemma dose_increment_factor:
  assumes D: "0 < Dv"
    and cfg: "0 \<le> ACH_val rv" "0 < room_volume_val rv"
    and tr: "0 < om" "0 < iem" "0 < BR"
    and oc: "0 < oc_vlin oc" "0 < oc_f_inf oc" "0 < oc_others_BR oc"
      "0 \<le> oc_exhalation_filter oc" "1 \<le> oc_Sx_sim oc"
      "0 \<le> oc_lambda_SR oc" "oc_lambda_SR oc \<le> 1"
  shows "\<exists>K. dose_increment rv inp iem om BR oc Dv
              = Inr (K * (delta_t_val rv / 3600 * f_i_val rv))
            \<and> 0 \<le> K \<and> (Dv \<le> Dmax_LR \<and> 0 < oc_exhalation_filter oc \<longrightarrow> 0 < K)"
proof -
  define E where "E = emission_spectrum_IRP_henriques Dv (in_others_vocal_activity inp)
                    (oc_vlin oc) (oc_f_inf oc)"
  define C0f where "C0f = E * om * iem * oc_exhalation_filter oc"
  define lam where "lam = ACH_val rv + sedimentation_rate Dv 0.3
                                + viral_inactivation_rate_long Dv (in_inside_temp inp) (in_RH inp)"
  define CLR where "CLR = (if Dv \<le> Dmax_LR then C0f * oc_others_BR oc / (lam * room_volume_val rv) else 0)"
  define r where "r = (1 / oc_Sx_sim oc) * oc_lambda_SR oc"
  define CSR where "CSR = (if Dv \<le> Dmax_SR then CLR + r * (C0f - CLR) else CLR)"
  define K where "K = CSR * BR * deposition_fraction Dv 0.3"
  have E: "0 < E"
    unfolding E_def emission_spectrum_IRP_henriques_def
    using emission_pos [OF D] oc(1,2) by simp
  have C0f: "0 \<le> C0f" and C0f': "0 < oc_exhalation_filter oc \<Longrightarrow> 0 < C0f"
    using E tr oc(4) by (simp_all add: C0f_def)
  have lam: "0 < lam"
    unfolding lam_def
    using cfg(1) sedimentation_nonneg [of Dv "0.3"] inactivation_pos [of Dv "in_inside_temp inp" "in_RH inp"]
    by linarith
  have den: "0 < lam * room_volume_val rv" using lam cfg(2) by simp
  have CLR: "0 \<le> CLR"
    using C0f oc(3) den by (simp add: CLR_def)
  have CLR': "Dv \<le> Dmax_LR \<Longrightarrow> 0 < oc_exhalation_filter oc \<Longrightarrow> 0 < CLR"
    using C0f' oc(3) den by (simp add: CLR_def)
  have S: "0 < oc_Sx_sim oc" using oc(5) by linarith
  have r0: "0 \<le> r" using S oc(6) by (simp add: r_def)
  have "oc_lambda_SR oc \<le> oc_Sx_sim oc" using oc(5,7) by linarith
  then have r1: "r \<le> 1" using S by (simp add: r_def)
  have CSR: "0 \<le> CSR"
    using convex_nonneg [OF r0 r1 CLR C0f] CLR by (simp add: CSR_def)
  have CSR': "Dv \<le> Dmax_LR \<Longrightarrow> 0 < oc_exhalation_filter oc \<Longrightarrow> 0 < CSR"
    using convex_pos [OF r0 r1 CLR' C0f'] CLR' by (simp add: CSR_def)
  have dep: "0 < deposition_fraction Dv 0.3" using D by (rule deposition_pos)
  have K: "0 \<le> K" using CSR tr(3) dep by (simp add: K_def)
  have K': "Dv \<le> Dmax_LR \<and> 0 < oc_exhalation_filter oc \<longrightarrow> 0 < K"
    using CSR' tr(3) dep by (simp add: K_def)
  have nz: "oc_Sx_sim oc \<noteq> 0" using S by simp
  have "dose_increment rv inp iem om BR oc Dv = Inr (K * (delta_t_val rv / 3600 * f_i_val rv))"
    unfolding dose_increment_def Let_def K_def CSR_def r_def CLR_def lam_def C0f_def E_def
    using nz by simp
  with K K' show ?thesis by blast
qed

lemma accumulate_factor:
  assumes "\<And>D w. (D, w) \<in> set bins \<Longrightarrow>
             \<exists>K. f D = Inr (K * c) \<and> 0 \<le> K \<and> (D \<le> Dmax_LR \<and> strict \<longrightarrow> 0 < K)"
    and "\<And>D w. (D, w) \<in> set bins \<Longrightarrow> 0 < w"
  shows "\<exists>T. accumulate_bins f bins acc = Inr (acc + T * c) \<and> 0 \<le> T
            \<and> (strict \<and> (\<exists>D w. (D, w) \<in> set bins \<and> D \<le> Dmax_LR) \<longrightarrow> 0 < T)"
  using assms
proof (induction bins arbitrary: acc)
  case Nil
  show ?case by (rule exI [of _ 0]) simp
next
  case (Cons b bins)
  obtain D w where b: "b = (D, w)" by (cases b)
  obtain K where K: "f D = Inr (K * c)" "0 \<le> K" "D \<le> Dmax_LR \<and> strict \<longrightarrow> 0 < K"
    using Cons.prems(1) [of D w] b by auto
  have w: "0 < w" using Cons.prems(2) [of D w] b by simp
  have "\<exists>T. accumulate_bins f bins (acc + K * c * w) = Inr (acc + K * c * w + T * c) \<and> 0 \<le> T
            \<and> (strict \<and> (\<exists>D w. (D, w) \<in> set bins \<and> D \<le> Dmax_LR) \<longrightarrow> 0 < T)"
  proof (rule Cons.IH)
    fix D' w' assume "(D', w') \<in> set bins"
    then have m: "(D', w') \<in> set (b # bins)" by simp
    show "\<exists>K. f D' = Inr (K * c) \<and> 0 \<le> K \<and> (D' \<le> Dmax_LR \<and> strict \<longrightarrow> 0 < K)"
      using m by (rule Cons.prems(1))
    show "0 < w'" using m by (rule Cons.prems(2))
  qed
  then obtain T where T: "accumulate_bins f bins (acc + K * c * w) = Inr (acc + K * c * w + T * c)"
      "0 \<le> T" "strict \<and> (\<exists>D w. (D, w) \<in> set bins \<and> D \<le> Dmax_LR) \<longrightarrow> 0 < T"
    by blast
  have "accumulate_bins f (b # bins) acc = Inr (acc + (K * w + T) * c)"
    using K(1) T(1) b by (simp add: algebra_simps)
  moreover have "0 \<le> K * w + T" using K(2) w T(2) by simp
  moreover have "strict \<and> (\<exists>D' w'. (D', w') \<in> set (b # bins) \<and> D' \<le> Dmax_LR) \<longrightarrow> 0 < K * w + T"
  proof
    assume h: "strict \<and> (\<exists>D' w'. (D', w') \<in> set (b # bins) \<and> D' \<le> Dmax_LR)"
    then consider "D \<le> Dmax_LR" | "\<exists>D' w'. (D', w') \<in> set bins \<and> D' \<le> Dmax_LR"
      using b by auto
    then show "0 < K * w + T"
    proof cases
      case 1
      then have "0 < K * w" using K(3) h w by simp
      then show ?thesis using T(2) by linarith
    next
      case 2
      then have "0 < T" using T(3) h by blast
      moreover have "0 \<le> K * w" using K(2) w by simp
      ultimately show ?thesis by linarith
    qed
  qed
  ultimately show ?case by blast
qed

lemma grid_bins:
  "(D, w) \<in> set (zip Ds dDs) \<Longrightarrow> 0 < D \<and> 0 < w"
proof -
  assume a: "(D, w) \<in> set (zip Ds dDs)"
  then have "D \<in> set Ds" by (rule set_zip_leftD)
  then have "0 < D" by (rule Ds_pos)
  moreover have "w \<in> set dDs" using a by (rule set_zip_rightD)
  then have "0 < w" using dDs_pos by (simp add: list_all_iff)
  ultimately show ?thesis by simp
qed

lemma grid_small_bin: "\<exists>D w. (D, w) \<in> set (zip Ds dDs) \<and> D \<le> Dmax_LR"
proof -
  have l: "length dDs = 50" by (simp add: dDs_def bin_widths_def length_Ds)
  have "(Ds ! 0, dDs ! 0) \<in> set (zip Ds dDs)"
    unfolding set_zip using l length_Ds by auto
  moreover have "Ds ! 0 \<le> Dmax_LR" by (simp add: Ds_0 Dmax_LR_def)
  ultimately show ?thesis by blast
qed

lemma person_dose_factor:
  assumes cfg: "0 \<le> ACH_val rv" "0 < room_volume_val rv"
    and tr: "0 < om" "0 < iem" "0 < BR"
    and oc: "0 < oc_vlin oc" "0 < oc_f_inf oc" "0 < oc_others_BR oc"
      "0 \<le> oc_exhalation_filter oc" "1 \<le> oc_Sx_sim oc"
      "0 \<le> oc_lambda_SR oc" "oc_lambda_SR oc \<le> 1"
  shows "\<exists>T. accumulate_bins (dose_increment rv inp iem om BR oc) (zip Ds dDs) 0
              = Inr (T * (delta_t_val rv / 3600 * f_i_val rv))
            \<and> 0 \<le> T \<and> (0 < oc_exhalation_filter oc \<longrightarrow> 0 < T)"
proof -
  have "\<exists>T. accumulate_bins (dose_increment rv inp iem om BR oc) (zip Ds dDs) 0
              = Inr (0 + T * (delta_t_val rv / 3600 * f_i_val rv)) \<and> 0 \<le> T
            \<and> (0 < oc_exhalation_filter oc \<and> (\<exists>D w. (D, w) \<in> set (zip Ds dDs) \<and> D \<le> Dmax_LR) \<longrightarrow> 0 < T)"
  proof (rule accumulate_factor)
    fix D w assume "(D, w) \<in> set (zip Ds dDs)"
    then have "0 < D" using grid_bins by blast
    then show "\<exists>K. dose_increment rv inp iem om BR oc D = Inr (K * (delta_t_val rv / 3600 * f_i_val rv))
        \<and> 0 \<le> K \<and> (D \<le> Dmax_LR \<and> 0 < oc_exhalation_filter oc \<longrightarrow> 0 < K)"
      using cfg tr oc by (rule dose_increment_factor)
  next
    fix D w assume "(D, w) \<in> set (zip Ds dDs)"
    then show "0 < w" using grid_bins by blast
  qed
  then show ?thesis using grid_small_bin by auto
qed

lemma sample_people_factor:
  assumes cfg: "0 \<le> ACH_val rv" "0 < room_volume_val rv" "0 \<le> x_val rv" "0 \<le> f_e_val rv"
    and tr: "0 < om" "0 < iem" "0 < BR"
    and g: "rng_ok g"
  shows "\<exists>T g'. sample_people k rv inp iem om BR td g = Inr (td + T * dose_scale rv, g')
           \<and> 0 \<le> T \<and> rng_ok g'
           \<and> (0 < k \<and> 1 \<le> covid_prevalence_val rv \<and> 0 < f_e_val rv \<longrightarrow> 0 < T)"
  using g
proof (induction k arbitrary: td g)
  case 0
  show ?case using 0 by (intro exI [of _ 0] exI [of _ g]) simp
next
  case (Suc k)
  define u where "u = fst (np_random g)"
  define g1 where "g1 = snd (np_random g)"
  have u: "0 \<le> u" "u < 1" and g1: "rng_ok g1"
    using np_random_ok [OF Suc.prems] by (simp_all add: u_def g1_def)
  show ?case
  proof (cases "u < covid_prevalence_val rv")
    case False
    obtain T g' where T: "sample_people k rv inp iem om BR td g1 = Inr (td + T * dose_scale rv, g')"
        "0 \<le> T" "rng_ok g'"
      using Suc.IH [OF g1, of td] by blast
    have "sample_people (Suc k) rv inp iem om BR td g = Inr (td + T * dose_scale rv, g')"
      using False T(1) by (simp add: split_beta u_def g1_def)
    moreover have "\<not> 1 \<le> covid_prevalence_val rv" using False u by linarith
    ultimately show ?thesis using T(2,3) by blast
  next
    case True
    define oc where "oc = fst (sample_occupant rv inp g1)"
    define g2 where "g2 = snd (sample_occupant rv inp g1)"
    have oc: "0 < oc_vlin oc" "0 < oc_f_inf oc" "0 < oc_others_BR oc"
      "0 \<le> oc_exhalation_filter oc" "1 \<le> oc_Sx_sim oc"
      "0 \<le> oc_lambda_SR oc" "oc_lambda_SR oc \<le> 1"
      and flt: "0 < f_e_val rv \<longrightarrow> 0 < oc_exhalation_filter oc"
      and g2: "rng_ok g2"
      using sample_occupant_ok [OF g1 cfg(3) cfg(4), of inp] by (simp_all add: oc_def g2_def)
    obtain Tp where Tp: "accumulate_bins (dose_increment rv inp iem om BR oc) (zip Ds dDs) 0
              = Inr (Tp * dose_scale rv)" "0 \<le> Tp" "0 < oc_exhalation_filter oc \<longrightarrow> 0 < Tp"
      using person_dose_factor [OF cfg(1) cfg(2) tr oc, of inp] unfolding dose_scale_def by blast
    obtain T g' where T: "sample_people k rv inp iem om BR (td + Tp * dose_scale rv) g2
          = Inr (td + Tp * dose_scale rv + T * dose_scale rv, g')" "0 \<le> T" "rng_ok g'"
      using Suc.IH [OF g2, of "td + Tp * dose_scale rv"] by blast
    have "sample_people (Suc k) rv inp iem om BR td g = Inr (td + (Tp + T) * dose_scale rv, g')"
      using True T(1) Tp(1)
      by (simp add: split_beta u_def [symmetric] g1_def [symmetric] oc_def [symmetric]
          g2_def [symmetric] algebra_simps)
    moreover have "0 \<le> Tp + T" using Tp(2) T(2) by simp
    moreover have "0 < f_e_val rv \<longrightarrow> 0 < Tp + T" using Tp(3) flt T(2) by auto
    ultimately show ?thesis using T(3) by blast
  qed
qed

lemma protection_factor_ok:
  assumes "rng_ok g"
  shows "0 < fst (protection_factor im g) \<and> rng_ok (snd (protection_factor im g))"
  using assms np_lognormal_ok [OF assms]
  by (simp add: protection_factor_def Let_def split_beta)

lemma oneoverln2_pos: "0 < oneoverln2"
  by (simp add: oneoverln2_def)

lemma trial_sign:
  assumes cfg: "0 \<le> ACH_val rv" "0 < room_volume_val rv" "0 \<le> x_val rv" "0 \<le> f_e_val rv"
    and iem: "0 < iem"
    and g: "rng_ok g"
  shows "\<exists>r g'. trial rv inp iem g = Inr (r, g') \<and> rng_ok g'
           \<and> (0 \<le> dose_scale rv \<longrightarrow> 0 \<le> r \<and> r \<le> 1)
           \<and> (dose_scale rv < 0 \<and> 0 < N_val rv \<and> 1 \<le> covid_prevalence_val rv \<and> 0 < f_e_val rv
                \<longrightarrow> r < 0)"
proof -
  define om where "om = fst (sample_omicron_transmissibility_bayesian g)"
  define g1 where "g1 = snd (sample_omicron_transmissibility_bayesian g)"
  define ID50 where "ID50 = fst (np_uniform 10 100 g1)"
  define g2 where "g2 = snd (np_uniform 10 100 g1)"
  define BR where "BR = fst (sample_breathing_rate (in_user_physical_activity inp) g2)"
  define g3 where "g3 = snd (sample_breathing_rate (in_user_physical_activity inp) g2)"
  have om: "0 < om" and g1: "rng_ok g1" using omicron_ok [OF g] by (simp_all add: om_def g1_def)
  have ID50: "10 \<le> ID50" and g2: "rng_ok g2"
    using np_uniform_ok [OF g1, of 10 100] by (simp_all add: ID50_def g2_def)
  have BR: "0 < BR" and g3: "rng_ok g3" using breathing_ok [OF g2] by (simp_all add: BR_def g3_def)
  obtain T g4 where T: "sample_people (nat (N_val rv)) rv inp iem om BR 0 g3
        = Inr (0 + T * dose_scale rv, g4)" "0 \<le> T" "rng_ok g4"
      "0 < nat (N_val rv) \<and> 1 \<le> covid_prevalence_val rv \<and> 0 < f_e_val rv \<longrightarrow> 0 < T"
    using sample_people_factor [OF cfg om iem BR g3, of "nat (N_val rv)" inp 0] by blast
  define PF where "PF = fst (protection_factor (immune_val rv) g4)"
  define g5 where "g5 = snd (protection_factor (immune_val rv) g4)"
  have PF: "0 < PF" and g5: "rng_ok g5"
    using protection_factor_ok [OF T(3)] by (simp_all add: PF_def g5_def)
  define den where "den = oneoverln2 * ID50 * PF"
  have den: "0 < den" using oneoverln2_pos ID50 PF by (simp add: den_def)
  define r where "r = 1 - exp (- (T * dose_scale rv) / den)"
  have eq: "trial rv inp iem g = Inr (r, g5)"
    using T(1)
    by (simp add: trial_def Let_def split_beta om_def [symmetric] g1_def [symmetric]
        ID50_def [symmetric] g2_def [symmetric] BR_def [symmetric] g3_def [symmetric]
        PF_def [symmetric] g5_def [symmetric] r_def den_def)
  have a: "0 \<le> dose_scale rv \<longrightarrow> 0 \<le> r \<and> r \<le> 1"
  proof
    assume "0 \<le> dose_scale rv"
    then have "0 \<le> T * dose_scale rv" using T(2) by simp
    then have "- (T * dose_scale rv) / den \<le> 0" using den by (simp add: field_simps)
    then have "exp (- (T * dose_scale rv) / den) \<le> 1" by simp
    moreover have "0 < exp (- (T * dose_scale rv) / den)" by simp
    ultimately show "0 \<le> r \<and> r \<le> 1" unfolding r_def by linarith
  qed
  have b: "dose_scale rv < 0 \<and> 0 < N_val rv \<and> 1 \<le> covid_prevalence_val rv \<and> 0 < f_e_val rv
                \<longrightarrow> r < 0"
  proof
    assume h: "dose_scale rv < 0 \<and> 0 < N_val rv \<and> 1 \<le> covid_prevalence_val rv \<and> 0 < f_e_val rv"
    then have "0 < T" using T(4) by simp
    then have "T * dose_scale rv < 0" using h by (simp add: mult_pos_neg)
    then have "0 < - (T * dose_scale rv) / den" using den by (simp add: field_simps)
    then have "1 < exp (- (T * dose_scale rv) / den)" by simp
    then show "r < 0" unfolding r_def by linarith
  qed
  show ?thesis using eq g5 a b by blast
qed

lemma simulations_sign:
  assumes cfg: "0 \<le> ACH_val rv" "0 < room_volume_val rv" "0 \<le> x_val rv" "0 \<le> f_e_val rv"
    and iem: "0 < iem"
    and g: "rng_ok g"
  shows "\<exists>rs g'. simulations n rv inp iem g = Inr (rs, g') \<and> length rs = n \<and> rng_ok g'
           \<and> (0 \<le> dose_scale rv \<longrightarrow> (\<forall>r\<in>set rs. 0 \<le> r \<and> r \<le> 1))
           \<and> (dose_scale rv < 0 \<and> 0 < N_val rv \<and> 1 \<le> covid_prevalence_val rv \<and> 0 < f_e_val rv
                \<longrightarrow> (\<forall>r\<in>set rs. r < 0))"
  using g
proof (induction n arbitrary: g)
  case 0
  then show ?case by simp
next
  case (Suc n)
  obtain r g1 where r: "trial rv inp iem g = Inr (r, g1)" "rng_ok g1"
      "0 \<le> dose_scale rv \<longrightarrow> 0 \<le> r \<and> r \<le> 1"
      "dose_scale rv < 0 \<and> 0 < N_val rv \<and> 1 \<le> covid_prevalence_val rv \<and> 0 < f_e_val rv \<longrightarrow> r < 0"
    using trial_sign [OF cfg iem Suc.prems, of inp] by blast
  obtain rs g2 where rs: "simulations n rv inp iem g1 = Inr (rs, g2)" "length rs = n" "rng_ok g2"
      "0 \<le> dose_scale rv \<longrightarrow> (\<forall>r\<in>set rs. 0 \<le> r \<and> r \<le> 1)"
      "dose_scale rv < 0 \<and> 0 < N_val rv \<and> 1 \<le> covid_prevalence_val rv \<and> 0 < f_e_val rv
                \<longrightarrow> (\<forall>r\<in>set rs. r < 0)"
    using Suc.IH [OF r(2)] by blast
  have "simulations (Suc n) rv inp iem g = Inr (r # rs, g2)"
    using r(1) rs(1) by simp
  then show ?case using r(3,4) rs(2,3,4,5) by auto
qed

lemma percentile_bounds:
  assumes ne: "a \<noteq> []" and q: "0 \<le> q" "q \<le> 100"
    and b: "\<And>v. v \<in> set a \<Longrightarrow> L \<le> v \<and> v \<le> U"
  shows "L \<le> percentile a q \<and> percentile a q \<le> U"
proof -
  define s where "s = sort a"
  define n where "n = length a"
  define h where "h = real (n - 1) * (q / 100)"
  define lo where "lo = nat \<lfloor>h\<rfloor>"
  define hi where "hi = min (lo + 1) (n - 1)"
  define t where "t = h - real lo"
  have n: "0 < n" using ne by (simp add: n_def)
  have h0: "0 \<le> h" using q by (simp add: h_def)
  have "q / 100 \<le> 1" using q by simp
  then have "real (n - 1) * (q / 100) \<le> real (n - 1) * 1"
    by (intro mult_left_mono) simp_all
  then have h1: "h \<le> real (n - 1)" by (simp add: h_def)
  have fl: "real lo = of_int \<lfloor>h\<rfloor>" using h0 by (simp add: lo_def)
  have t: "0 \<le> t" "t \<le> 1" unfolding t_def fl by linarith+
  have "\<lfloor>h\<rfloor> \<le> int (n - 1)" using h1 by (simp add: floor_le_iff)
  then have "lo \<le> n - 1" by (simp add: lo_def)
  then have "lo < n" using n by linarith
  then have lo: "lo < length s" by (simp add: s_def n_def)
  have "hi < n" using n by (simp add: hi_def)
  then have hi: "hi < length s" by (simp add: s_def n_def)
  have "s ! lo \<in> set a" "s ! hi \<in> set a"
    using lo hi nth_mem [of lo s] nth_mem [of hi s] by (simp_all add: s_def)
  then have x: "L \<le> s ! lo" "s ! lo \<le> U" and y: "L \<le> s ! hi" "s ! hi \<le> U"
    using b by blast+
  have "0 \<le> (s ! lo - L) + t * ((s ! hi - L) - (s ! lo - L))"
    using t x y by (intro convex_nonneg) simp_all
  moreover have "0 \<le> (U - s ! lo) + t * ((U - s ! hi) - (U - s ! lo))"
    using t x y by (intro convex_nonneg) simp_all
  moreover have "percentile a q = s ! lo + t * (s ! hi - s ! lo)"
    by (simp add: percentile_def Let_def s_def n_def h_def lo_def hi_def t_def)
  ultimately show ?thesis by (simp add: algebra_simps)
qed

lemma sum_list_bounds:
  fixes a :: "real list"
  assumes "\<And>v. v \<in> set a \<Longrightarrow> L \<le> v \<and> v \<le> U"
  shows "L * real (length a) \<le> sum_list a \<and> sum_list a \<le> U * real (length a)"
  using assms by (induction a) (auto simp: algebra_simps intro: add_mono)

lemma mean_bounds:
  assumes ne: "a \<noteq> []" and b: "\<And>v. v \<in> set a \<Longrightarrow> L \<le> v \<and> v \<le> U"
  shows "L \<le> np_mean a \<and> np_mean a \<le> U"
proof -
  have n: "0 < real (length a)" using ne by simp
  have "L * real (length a) \<le> sum_list a" "sum_list a \<le> U * real (length a)"
    using sum_list_bounds [of a L U] b by blast+
  then show ?thesis using n by (simp add: np_mean_def field_simps)
qed

lemma mean_negative:
  assumes ne: "a \<noteq> []" and b: "\<And>v. v \<in> set a \<Longrightarrow> v < 0"
  shows "np_mean a < 0"
proof -
  have "sum_list a < 0" using ne b
  proof (induction a)
    case Nil then show ?case by simp
  next
    case (Cons v a)
    show ?case
    proof (cases "a = []")
      case True then show ?thesis using Cons.prems(2) [of v] by simp
    next
      case False
      then have "sum_list a < 0" using Cons by simp
      moreover have "v < 0" using Cons.prems(2) by simp
      ultimately show ?thesis by simp
    qed
  qed
  then show ?thesis using ne by (simp add: np_mean_def divide_neg_pos)
qed

lemma adaptive_n_sims_pos: "0 < adaptive_n_sims e"
  by (simp add: adaptive_n_sims_def)

lemma engine_valid:
  assumes "\<not> py_any (fst (validate inp))" and "vals_finite (snd (validate inp))"
  shows "calculate_unified_transmission_exposure inp g =
     (case simulations (adaptive_n_sims (expected_infectious (real_vals (snd (validate inp)))))
             (real_vals (snd (validate inp))) inp
             (get_immune_emission_multiplier (in_immunocompromised_status inp)) g of
        Inl e \<Rightarrow> Raised e
      | Inr (all_risks_pf, g') \<Rightarrow>
          Returned (summarize (base_result (real_vals (snd (validate inp))) inp) all_risks_pf) g')"
  using assms by (simp add: calculate_unified_transmission_exposure_def Let_def split_beta)

lemma summarize_scalars:
  "summarize res a ''risk'' = Some (VFloat (array_mean a))"
  "summarize res a ''mc_mean_pf'' = Some (VFloat (array_mean a))"
  "summarize res a ''mc_pf_median'' = Some (VFloat (array_percentile a 50))"
  "summarize res a ''mc_pf_ci_5'' = Some (VFloat (array_percentile a 5))"
  "summarize res a ''mc_pf_ci_95'' = Some (VFloat (array_percentile a 95))"
  "summarize res a ''mc_pf_ci_25'' = Some (VFloat (array_percentile a 25))"
  "summarize res a ''mc_pf_ci_75'' = Some (VFloat (array_percentile a 75))"
  "summarize res a ''mc_pf_ci_0_5'' = Some (VFloat (array_percentile a 0.5))"
  "summarize res a ''mc_pf_ci_99_5'' = Some (VFloat (array_percentile a 99.5))"
  by (simp_all add: summarize_def Let_def)

lemmas parse_defs = safe_float_def safe_int_def validate_def
      py_strip_def is_space_def py_float_def py_int_def drop_underscores_def parse_inf_or_nan_def split_sign_def
      to_lower_def parse_decimal_def is_digit_def parse_exponent_def digits_val_def digit_val_def
      round_double_def

lemma py_any_replicate: "\<not> py_any (replicate n [])"
  by (simp add: py_any_def list_ex_iff)

lemma engine_returns:
  assumes v: "\<not> py_any (fst (validate inp))" "vals_finite (snd (validate inp))"
    and rv: "rv = real_vals (snd (validate inp))"
    and cfg: "0 \<le> ACH_val rv" "0 < room_volume_val rv" "0 \<le> x_val rv" "0 \<le> f_e_val rv"
    and g: "rng_ok g"
  shows "\<exists>rs g'. calculate_unified_transmission_exposure inp g
                  = Returned (summarize (base_result rv inp) rs) g'
           \<and> length rs = adaptive_n_sims (expected_infectious rv) \<and> rng_ok g'
           \<and> (0 \<le> dose_scale rv \<longrightarrow> (\<forall>r\<in>set rs. 0 \<le> r \<and> r \<le> 1))
           \<and> (dose_scale rv < 0 \<and> 0 < N_val rv \<and> 1 \<le> covid_prevalence_val rv \<and> 0 < f_e_val rv
                \<longrightarrow> (\<forall>r\<in>set rs. r < 0))"
proof -
  let ?iem = "get_immune_emission_multiplier (in_immunocompromised_status inp)"
  obtain rs g' where s: "simulations (adaptive_n_sims (expected_infectious rv)) rv inp ?iem g = Inr (rs, g')"
      "length rs = adaptive_n_sims (expected_infectious rv)" "rng_ok g'"
      "0 \<le> dose_scale rv \<longrightarrow> (\<forall>r\<in>set rs. 0 \<le> r \<and> r \<le> 1)"
      "dose_scale rv < 0 \<and> 0 < N_val rv \<and> 1 \<le> covid_prevalence_val rv \<and> 0 < f_e_val rv
                \<longrightarrow> (\<forall>r\<in>set rs. r < 0)"
    using simulations_sign [OF cfg immune_multiplier_pos g] by blast
  have "calculate_unified_transmission_exposure inp g = Returned (summarize (base_result rv inp) rs) g'"
    using s(1) by (simp add: engine_valid [OF v] rv)
  then show ?thesis using s(2-5) by blast
qed

lemma summarize_unit:
  assumes ne: "a \<noteq> []" and b: "\<And>v. v \<in> set a \<Longrightarrow> 0 \<le> v \<and> v \<le> 1"
  shows "list_all (unit_risk (Returned (summarize res a) g)) risk_keys"
proof -
  have m: "0 \<le> np_mean a \<and> np_mean a \<le> 1" using ne b by (rule mean_bounds)
  have p: "0 \<le> percentile a q \<and> percentile a q \<le> 1" if "0 \<le> q" "q \<le> 100" for q
    using ne that b by (rule percentile_bounds)
  show ?thesis
    using m p [of 50] p [of 5] p [of 95] p [of 25] p [of 75] p [of "0.5"] p [of "99.5"] ne
    by (simp add: risk_keys_def unit_risk_def float_at_def summarize_scalars array_mean_def array_percentile_def)
qed

lemma validate_negative_duration:
  "fst (validate negative_duration_inputs) = replicate 15 []"
  "snd (validate negative_duration_inputs) = default_vals\<lparr>delta_t_val := Finite (- 3600), covid_prev_pct := Finite 100\<rparr>"
  by (simp_all add: negative_duration_inputs_def default_inputs_def parse_defs default_vals_def numeral_eq_Suc)

lemma rng_half_ok: "rng_ok rng_half"
  by (simp add: rng_ok_def rng_half_def)

lemma py_int_imp_py_float: "py_int txt = Some n \<Longrightarrow> py_float txt \<noteq> None"
proof -
  assume a: "py_int txt = Some n"
  then obtain t where t: "drop_underscores txt = Some t"
    by (auto simp: py_int_def split: option.splits)
  obtain neg r where sr: "split_sign t = (neg, r)" by (cases "split_sign t")
  have r: "r \<noteq> []" "list_all is_digit r"
    using a t sr by (auto simp: py_int_def split: if_splits)
  have tw: "takeWhile is_digit r = r" "dropWhile is_digit r = []"
    using r(2) by (simp_all add: list_all_iff)
  have "parse_decimal t \<noteq> None"
    using r(1) by (simp add: parse_decimal_def sr tw parse_exponent_def Let_def)
  then show ?thesis
    by (auto simp: py_float_def t split: option.splits)
qed

lemma rejected_float_int: "rejected_float val \<Longrightarrow> rejected_int val"
proof (cases val)
  case (PyStr s)
  assume "rejected_float val"
  then have "py_strip s \<noteq> []" "py_float (py_strip s) = None" using PyStr by simp_all
  moreover have "py_int (py_strip s) = None"
    using py_int_imp_py_float [of "py_strip s"] calculation(2) by (cases "py_int (py_strip s)") auto
  ultimately show ?thesis using PyStr by simp
qed simp_all

lemma validate_blank_volume: "validate blank_volume_inputs = (replicate 15 [], default_vals)"
  by (simp add: blank_volume_inputs_def default_inputs_def parse_defs default_vals_def numeral_eq_Suc)

lemma jet_puff_agree:
  "jet_dilution (jp_x_transition jp) jp = puff_dilution (jp_x_transition jp) jp"
  by (simp add: jet_dilution_def puff_dilution_def D_mouth_def)

lemma dilution_isCont:
  "isCont (\<lambda>x. dilution_factor x jp) (jp_x_transition jp)"
proof -
  let ?a = "jp_x_transition jp"
  have cj: "isCont (\<lambda>x. jet_dilution x jp) ?a"
    unfolding jet_dilution_def divide_inverse by (intro continuous_intros)
  have cp: "isCont (\<lambda>x. puff_dilution x jp) ?a"
    unfolding puff_dilution_def Let_def divide_inverse by (intro continuous_intros)
  have L: "continuous (at_left ?a) (\<lambda>x. dilution_factor x jp)"
  proof -
    have "((\<lambda>x. jet_dilution x jp) \<longlongrightarrow> jet_dilution ?a jp) (at_left ?a)"
      using cj by (simp add: continuous_within isCont_def filterlim_at_split)
    moreover have "eventually (\<lambda>x. jet_dilution x jp = dilution_factor x jp) (at_left ?a)"
      by (simp add: eventually_at_filter dilution_factor_def)
    ultimately have "((\<lambda>x. dilution_factor x jp) \<longlongrightarrow> jet_dilution ?a jp) (at_left ?a)"
      by (rule Lim_transform_eventually)
    then show ?thesis by (simp add: continuous_within dilution_factor_def jet_puff_agree)
  qed
  have R: "continuous (at_right ?a) (\<lambda>x. dilution_factor x jp)"
  proof -
    have "((\<lambda>x. puff_dilution x jp) \<longlongrightarrow> puff_dilution ?a jp) (at_right ?a)"
      using cp by (simp add: continuous_within isCont_def filterlim_at_split)
    moreover have "eventually (\<lambda>x. puff_dilution x jp = dilution_factor x jp) (at_right ?a)"
      by (simp add: eventually_at_filter dilution_factor_def)
    ultimately have "((\<lambda>x. dilution_factor x jp) \<longlongrightarrow> puff_dilution ?a jp) (at_right ?a)"
      by (rule Lim_transform_eventually)
    then show ?thesis by (simp add: continuous_within dilution_factor_def)
  qed
  show ?thesis using L R by (simp add: continuous_at_split)
qed

lemma parse_inf_or_nan_nonfinite: "parse_inf_or_nan t = Some f \<Longrightarrow> \<not> is_finite f"
  by (auto simp: parse_inf_or_nan_def Let_def split_beta split: if_splits)

lemma round_double_finite: "is_finite (round_double r) \<longleftrightarrow> \<not> 2 ^ 1024 - 2 ^ 970 \<le> \<bar>r\<bar>"
  by (auto simp: round_double_def abs_real_def)

lemma empty_text_parses:
  "drop_underscores [] = Some []" "parse_inf_or_nan [] = None" "parse_decimal [] = None"
  by (simp_all add: drop_underscores_def parse_inf_or_nan_def parse_decimal_def split_sign_def)

lemma safe_float_finite:
  assumes "is_finite d"
  shows "is_finite (fst (safe_float val d)) \<longleftrightarrow> \<not> nonfinite_text val"
proof (cases "strip_value val = []")
  case True
  then show ?thesis using assms by (simp add: safe_float_def nonfinite_text_def empty_text_parses)
next
  case False
  show ?thesis
  proof (cases "drop_underscores (strip_value val)")
    case None
    then show ?thesis using False assms by (simp add: safe_float_def nonfinite_text_def py_float_def)
  next
    case (Some t)
    show ?thesis
    proof (cases "parse_inf_or_nan t")
      case (Some f)
      then show ?thesis
        using False \<open>drop_underscores (strip_value val) = Some t\<close> parse_inf_or_nan_nonfinite [OF Some]
        by (simp add: safe_float_def nonfinite_text_def py_float_def)
    next
      case None
      then show ?thesis
        using False \<open>drop_underscores (strip_value val) = Some t\<close> assms
        by (cases "parse_decimal t")
          (simp_all add: safe_float_def nonfinite_text_def py_float_def round_double_finite)
    qed
  qed
qed

lemma adaptive_bands:
  "(e < 0.5 \<longrightarrow> adaptive_n_sims e = 25000)
   \<and> (0.5 \<le> e \<and> e < 2.0 \<longrightarrow> adaptive_n_sims e = 8000)
   \<and> (2.0 \<le> e \<and> e < 5.0 \<longrightarrow> adaptive_n_sims e = 2000)
   \<and> (5.0 \<le> e \<and> e < 10.0 \<longrightarrow> adaptive_n_sims e = 1000)
   \<and> (10.0 \<le> e \<longrightarrow> adaptive_n_sims e = 300)"
  by (simp add: adaptive_n_sims_def)

lemma expected_occupancy: "expected_infectious (occupancy n pct) = real_of_int n * (pct / 100)"
  by (simp add: expected_infectious_def covid_prevalence_val_def occupancy_def)

lemma py_round_cases:
  "(py_round v = \<lfloor>v\<rfloor> \<and> v - of_int \<lfloor>v\<rfloor> \<le> 1 / 2)
   \<or> (py_round v = \<lfloor>v\<rfloor> + 1 \<and> 1 / 2 \<le> v - of_int \<lfloor>v\<rfloor>)"
  by (simp add: py_round_def Let_def)

lemma py_round_pos:
  assumes "0 < py_round v"
  shows "0 < v"
proof -
  have f: "of_int \<lfloor>v\<rfloor> \<le> v" by simp
  from py_round_cases [of v] show ?thesis
  proof
    assume "py_round v = \<lfloor>v\<rfloor> \<and> v - of_int \<lfloor>v\<rfloor> \<le> 1 / 2"
    then have "1 \<le> \<lfloor>v\<rfloor>" using assms by linarith
    then have "(1::real) \<le> of_int \<lfloor>v\<rfloor>" by linarith
    then show ?thesis using f by linarith
  next
    assume a: "py_round v = \<lfloor>v\<rfloor> + 1 \<and> 1 / 2 \<le> v - of_int \<lfloor>v\<rfloor>"
    then have "0 \<le> \<lfloor>v\<rfloor>" using assms by linarith
    then have "(0::real) \<le> of_int \<lfloor>v\<rfloor>" by linarith
    then show ?thesis using a by linarith
  qed
qed

lemma py_round_neg:
  assumes "py_round v < 0"
  shows "v < 0"
proof -
  have f: "v < of_int \<lfloor>v\<rfloor> + 1" by linarith
  from py_round_cases [of v] show ?thesis
  proof
    assume a: "py_round v = \<lfloor>v\<rfloor> \<and> v - of_int \<lfloor>v\<rfloor> \<le> 1 / 2"
    then have "\<lfloor>v\<rfloor> \<le> - 1" using assms by linarith
    then have "of_int \<lfloor>v\<rfloor> \<le> (- 1::real)" by linarith
    then show ?thesis using a by linarith
  next
    assume "py_round v = \<lfloor>v\<rfloor> + 1 \<and> 1 / 2 \<le> v - of_int \<lfloor>v\<rfloor>"
    then have "\<lfloor>v\<rfloor> \<le> - 2" using assms by linarith
    then have "of_int \<lfloor>v\<rfloor> \<le> (- 2::real)" by linarith
    then show ?thesis using f by linarith
  qed
qed

lemma smart_bin_width_pos: "0 < smart_bin_width x_min x_max \<Longrightarrow> x_min < x_max"
proof -
  assume a: "0 < smart_bin_width x_min x_max"
  define b where "b = (x_max - x_min) / 20"
  have "0 < py_round (b * 10000) \<or> 0 < py_round (b * 1000) \<or> 0 < py_round (b * 100)"
    using a by (auto simp: smart_bin_width_def Let_def b_def split: if_splits)
  then have "0 < b" using py_round_pos [of "b * 10000"] py_round_pos [of "b * 1000"]
      py_round_pos [of "b * 100"] by (auto simp: zero_less_mult_iff)
  then show ?thesis by (simp add: b_def)
qed

lemma smart_bin_width_neg: "smart_bin_width x_min x_max < 0 \<Longrightarrow> x_max < x_min"
proof -
  assume a: "smart_bin_width x_min x_max < 0"
  define b where "b = (x_max - x_min) / 20"
  have "py_round (b * 10000) < 0 \<or> py_round (b * 1000) < 0 \<or> py_round (b * 100) < 0"
    using a by (auto simp: smart_bin_width_def Let_def b_def split: if_splits)
  then have "b < 0" using py_round_neg [of "b * 10000"] py_round_neg [of "b * 1000"]
      py_round_neg [of "b * 100"] by (auto simp: mult_less_0_iff)
  then show ?thesis by (simp add: b_def)
qed

lemma arange_length:
  fixes w :: real
  assumes "(0 < w \<and> x_min < x_max) \<or> (w < 0 \<and> x_max < x_min)"
  shows "2 \<le> nat \<lceil>(x_max + w - x_min) / w\<rceil>"
proof -
  have "0 < (x_max - x_min) / w" using assms by (auto simp: zero_less_divide_iff)
  moreover have "(x_max + w - x_min) / w = 1 + (x_max - x_min) / w"
    using assms by (auto simp: field_simps)
  ultimately have "of_int 1 < (x_max + w - x_min) / w" by simp
  then have "1 < \<lceil>(x_max + w - x_min) / w\<rceil>" by (simp only: less_ceiling_iff)
  then show ?thesis by linarith
qed

lemma decreases_iff: "decreases xs \<longleftrightarrow> (\<exists>i. Suc i < length xs \<and> xs ! i > xs ! Suc i)"
proof (induction xs rule: decreases.induct)
  case (1 a b rest)
  show ?case
  proof
    assume "decreases (a # b # rest)"
    then consider "a > b" | "decreases (b # rest)" by auto
    then show "\<exists>i. Suc i < length (a # b # rest) \<and> (a # b # rest) ! i > (a # b # rest) ! Suc i"
    proof cases
      case 1 then show ?thesis by (intro exI [of _ 0]) simp
    next
      case 2
      then obtain i where "Suc i < length (b # rest)" "(b # rest) ! i > (b # rest) ! Suc i"
        using "1.IH" by blast
      then show ?thesis by (intro exI [of _ "Suc i"]) simp
    qed
  next
    assume "\<exists>i. Suc i < length (a # b # rest) \<and> (a # b # rest) ! i > (a # b # rest) ! Suc i"
    then obtain i where i: "Suc i < length (a # b # rest)" "(a # b # rest) ! i > (a # b # rest) ! Suc i"
      by blast
    show "decreases (a # b # rest)"
    proof (cases i)
      case 0 then show ?thesis using i by simp
    next
      case (Suc j)
      then have "Suc j < length (b # rest)" "(b # rest) ! j > (b # rest) ! Suc j" using i by simp_all
      then have "decreases (b # rest)" using "1.IH" by blast
      then show ?thesis by simp
    qed
  qed
qed simp_all

lemma decreases_arange:
  "decreases (map (\<lambda>i. s + real i * w) [0..<m]) \<longleftrightarrow> 2 \<le> m \<and> w < 0"
proof -
  have "(\<exists>i. Suc i < m \<and> s + real i * w > s + real (Suc i) * w) \<longleftrightarrow> 2 \<le> m \<and> w < 0"
  proof
    assume "\<exists>i. Suc i < m \<and> s + real i * w > s + real (Suc i) * w"
    then obtain i where "Suc i < m" "s + real i * w > s + real (Suc i) * w" by blast
    then show "2 \<le> m \<and> w < 0" by (simp add: algebra_simps)
  next
    assume "2 \<le> m \<and> w < 0"
    then have "Suc 0 < m \<and> s + real 0 * w > s + real (Suc 0) * w" by simp
    then show "\<exists>i. Suc i < m \<and> s + real i * w > s + real (Suc i) * w" by blast
  qed
  moreover have "decreases (map (\<lambda>i. s + real i * w) [0..<m])
      \<longleftrightarrow> (\<exists>i. Suc i < m \<and> s + real i * w > s + real (Suc i) * w)"
    unfolding decreases_iff by (auto simp: nth_map)
  ultimately show ?thesis by simp
qed

lemma np_diff_length: "length (np_diff c) = length c - 1"
  by (induction c rule: np_diff.induct) simp_all

lemma np_diff_sum: "c \<noteq> [] \<Longrightarrow> sum_list (np_diff c) = last c - hd c"
  by (induction c rule: np_diff.induct) simp_all

lemma count_between:
  assumes "H \<le> L"
  shows "count_where (\<lambda>v. v \<le> L) a - count_where (\<lambda>v. v < H) a
           = count_where (\<lambda>v. H \<le> v \<and> v \<le> L) a"
  using assms by (induction a) (auto simp: count_where_def)

lemma count_where_le: "count_where P a \<le> int (length a)"
  by (simp add: count_where_def)

lemma generate_cases:
  "generate_risk_distribution_data a =
     (if a = [] then Inl (ValueError ''Risk array is empty'')
      else if \<not> list_all (\<lambda>v. 0 \<le> v \<and> v \<le> 1) a
        then Inl (ValueError ''Risk values must be between 0 and 1'')
      else if smart_bin_width (fst (calculate_optimal_axes a)) (fst (snd (calculate_optimal_axes a))) = 0
        then Inl ArangeError
      else if smart_bin_width (fst (calculate_optimal_axes a)) (fst (snd (calculate_optimal_axes a))) < 0
        then Inl (ValueError ''`bins` must increase monotonically, when an array'')
      else Inr \<lparr>rd_histogram =
                 \<lparr>h_counts = np_diff (map (\<lambda>e. count_where (\<lambda>v. v < e) a) (butlast (histogram_bins a))
                                       @ [count_where (\<lambda>v. v \<le> last (histogram_bins a)) a]),
                  h_edges = histogram_bins a,
                  h_total_simulations = length a,
                  h_max_count =
                    (if length (np_diff (map (\<lambda>e. count_where (\<lambda>v. v < e) a) (butlast (histogram_bins a))
                                       @ [count_where (\<lambda>v. v \<le> last (histogram_bins a)) a])) > 0
                     then Max (set (np_diff (map (\<lambda>e. count_where (\<lambda>v. v < e) a) (butlast (histogram_bins a))
                                       @ [count_where (\<lambda>v. v \<le> last (histogram_bins a)) a])))
                     else 0)\<rparr>,
               rd_statistics = calculate_risk_statistics a,
               rd_axis_config =
                 \<lparr>ax_x_min = fst (calculate_optimal_axes a),
                  ax_x_max = fst (snd (calculate_optimal_axes a)),
                  ax_tick_interval = snd (snd (calculate_optimal_axes a))\<rparr>\<rparr>)"
proof -
  obtain x_min x_max tick where ax: "calculate_optimal_axes a = (x_min, x_max, tick)"
    by (cases "calculate_optimal_axes a") auto
  define w where "w = smart_bin_width x_min x_max"
  define m where "m = nat \<lceil>(x_max + w - x_min) / w\<rceil>"
  have hb: "histogram_bins a = map (\<lambda>i. x_min + real i * w) [0..<m]"
    by (simp add: histogram_bins_def ax w_def m_def Let_def)
  have range: "(list_ex (\<lambda>v. v < 0) a \<or> list_ex (\<lambda>v. v > 1) a) \<longleftrightarrow> \<not> list_all (\<lambda>v. 0 \<le> v \<and> v \<le> 1) a"
    by (auto simp: list_ex_iff list_all_iff not_le)
  consider "w = 0" | "w < 0" | "0 < w" by linarith
  then show ?thesis
  proof cases
    case 1
    then show ?thesis
      by (simp add: generate_risk_distribution_data_def range ax create_smart_bins_def
          np_arange_def w_def [symmetric] Let_def)
  next
    case 2
    then have "x_max < x_min" unfolding w_def by (rule smart_bin_width_neg)
    then have "2 \<le> m" unfolding m_def using 2 by (intro arange_length) simp
    then have "decreases (map (\<lambda>i. x_min + real i * w) [0..<m])"
      using 2 by (simp add: decreases_arange)
    then show ?thesis using 2
      by (simp add: generate_risk_distribution_data_def range ax create_smart_bins_def
          np_arange_def w_def [symmetric] m_def [symmetric] np_histogram_def Let_def)
  next
    case 3
    then have d: "\<not> decreases (map (\<lambda>i. x_min + real i * w) [0..<m])"
      by (simp add: decreases_arange)
    have "x_min < x_max" using 3 unfolding w_def by (rule smart_bin_width_pos)
    then have "2 \<le> m" unfolding m_def using 3 by (intro arange_length) simp
    then have ne: "map (\<lambda>i. x_min + real i * w) [0..<m] \<noteq> []" by auto
    show ?thesis using 3 d ne
      by (simp add: generate_risk_distribution_data_def range ax create_smart_bins_def
          np_arange_def w_def [symmetric] m_def [symmetric] np_histogram_def Let_def hb)
  qed
qed

lemma histogram_shape:
  assumes "generate_risk_distribution_data a = Inr d"
  shows "length (h_edges (rd_histogram d)) = length (h_counts (rd_histogram d)) + 1
       \<and> 2 \<le> length (h_edges (rd_histogram d))
       \<and> hd (h_edges (rd_histogram d)) \<le> last (h_edges (rd_histogram d))
       \<and> sum_list (h_counts (rd_histogram d))
           = count_where (\<lambda>v. hd (h_edges (rd_histogram d)) \<le> v
                               \<and> v \<le> last (h_edges (rd_histogram d))) a
       \<and> sum_list (h_counts (rd_histogram d)) \<le> int (length a)
       \<and> h_total_simulations (rd_histogram d) = length a"
proof -
  obtain x_min x_max tick where ax: "calculate_optimal_axes a = (x_min, x_max, tick)"
    by (cases "calculate_optimal_axes a") auto
  define w where "w = smart_bin_width x_min x_max"
  define m where "m = nat \<lceil>(x_max + w - x_min) / w\<rceil>"
  define bins where "bins = histogram_bins a"
  define cum where "cum = map (\<lambda>e. count_where (\<lambda>v. v < e) a) (butlast bins)
                                       @ [count_where (\<lambda>v. v \<le> last bins) a]"
  have hb: "bins = map (\<lambda>i. x_min + real i * w) [0..<m]"
    by (simp add: bins_def histogram_bins_def ax w_def m_def Let_def)
  have w: "0 < w"
    using assms unfolding generate_cases [of a] by (auto simp: ax w_def split: if_splits)
  have e: "h_edges (rd_histogram d) = bins" and c: "h_counts (rd_histogram d) = np_diff cum"
    and t: "h_total_simulations (rd_histogram d) = length a"
    using assms unfolding generate_cases [of a]
    by (auto simp: bins_def cum_def split: if_splits)
  have "x_min < x_max" using w unfolding w_def by (rule smart_bin_width_pos)
  then have m: "2 \<le> m" unfolding m_def using w by (intro arange_length) simp
  have lb: "length bins = m" by (simp add: hb)
  have lc: "length cum = m" using m by (simp add: cum_def lb)
  have hdb: "hd bins = x_min" using m by (simp add: hb hd_map upt_conv_Cons)
  have lastb: "last bins = x_min + real (m - 1) * w"
    using m by (simp add: hb last_map last_upt)
  have mono: "hd bins \<le> last bins" using w by (simp add: hdb lastb)
  have bl: "butlast bins \<noteq> []" using m lb by (cases bins) (auto simp: butlast_conv_take)
  have hdbl: "hd (butlast bins) = hd bins" using bl by (cases bins) auto
  have hc: "hd cum = count_where (\<lambda>v. v < hd bins) a"
    using bl by (simp add: cum_def hd_append hd_map hdbl)
  have lstc: "last cum = count_where (\<lambda>v. v \<le> last bins) a" by (simp add: cum_def)
  have "cum \<noteq> []" by (simp add: cum_def)
  then have "sum_list (np_diff cum) = last cum - hd cum" by (rule np_diff_sum)
  also have "\<dots> = count_where (\<lambda>v. hd bins \<le> v \<and> v \<le> last bins) a"
    unfolding hc lstc using mono by (rule count_between)
  finally have s: "sum_list (np_diff cum) = count_where (\<lambda>v. hd bins \<le> v \<and> v \<le> last bins) a" .
  have le: "sum_list (np_diff cum) \<le> int (length a)" unfolding s by (rule count_where_le)
  have len: "length bins = length (np_diff cum) + 1" using m by (simp add: np_diff_length lb lc)
  show ?thesis using len m lb mono s le t by (simp add: e c)
qed

lemma axes_pair: "calculate_optimal_axes [1 / 10, 1] = (29 / 250, 573 / 500, 1 / 20)"
  by (simp add: calculate_optimal_axes_def percentile_def Let_def)

lemma width_pair: "smart_bin_width (29 / 250) (573 / 500) = 1 / 20"
  by (simp add: smart_bin_width_def py_round_def Let_def)

lemma generate_pair: "\<not> isl (generate_risk_distribution_data [1 / 10, 1])"
  unfolding generate_cases [of "[1 / 10, 1]"] by (simp add: axes_pair width_pair)

lemma bins_pair:
  "hd (histogram_bins [1 / 10, 1]) = 29 / 250" "last (histogram_bins [1 / 10, 1]) = 583 / 500"
proof -
  have m: "nat \<lceil>((573 / 500 :: real) + 1 / 20 - 29 / 250) / (1 / 20)\<rceil> = 22" by simp
  have b: "histogram_bins [1 / 10, 1] = map (\<lambda>i. 29 / 250 + real i * (1 / 20)) [0..<22]"
    by (simp only: histogram_bins_def axes_pair width_pair Let_def split m)
  show "hd (histogram_bins [1 / 10, 1]) = 29 / 250"
    by (simp add: b hd_map upt_conv_Cons)
  show "last (histogram_bins [1 / 10, 1]) = 583 / 500"
    by (simp add: b last_map)
qed



lemma summarize_distribution:
  "generate_risk_distribution_data a = Inl e
     \<Longrightarrow> summarize res a ''risk_distribution_data'' = Some VNone"
  by (simp add: summarize_def Let_def)


text \<open>
  In the exact arithmetic of this theory the sign of a trial's dose is the sign of the
  duration times the inhalation factor: with a non-negative ventilation rate, distance,
  exhalation factor, inhalation factor and duration and a positive room volume, every
  trial risk lies in \<open>[0, 1]\<close>, and with it the mean, the median and the percentile
  bounds. This is a fact about exact arithmetic only, not a bound on what the float64
  program returns: inside these sign conditions the program can still overflow (a
  subnormal room volume, a product \<^verbatim>\<open>N_val * percentage_masked_val\<close> beyond the double
  range).
\<close>

lemma exact_risk_bounds:
  assumes "\<not> py_any (fst (validate inp))" and "vals_finite (snd (validate inp))"
    and "rv = real_vals (snd (validate inp))"
    and "0 \<le> ACH_val rv" and "0 < room_volume_val rv" and "0 \<le> x_val rv"
    and "0 \<le> f_e_val rv" and "0 \<le> f_i_val rv" and "0 \<le> delta_t_val rv"
    and "rng_ok g"
  shows "list_all (unit_risk (calculate_unified_transmission_exposure inp g)) risk_keys"
proof -
  have d: "0 \<le> dose_scale rv" using assms(8,9) by (simp add: dose_scale_def)
  obtain rs g' where r: "calculate_unified_transmission_exposure inp g
                  = Returned (summarize (base_result rv inp) rs) g'"
      "length rs = adaptive_n_sims (expected_infectious rv)"
      "\<forall>r\<in>set rs. 0 \<le> r \<and> r \<le> 1"
    using engine_returns [OF assms(1-7) assms(10)] d by blast
  have "rs \<noteq> []" using r(2) adaptive_n_sims_pos [of "expected_infectious rv"] by auto
  then show ?thesis unfolding r(1) using r(3) by (intro summarize_unit) auto
qed

lemma exact_risk_bounds_default:
  "\<not> py_any (fst (validate default_inputs)) \<and> vals_finite (snd (validate default_inputs))
   \<and> rng_ok rng_half
   \<and> list_all (unit_risk (calculate_unified_transmission_exposure default_inputs rng_half)) risk_keys"
proof -
  have v: "\<not> py_any (fst (validate default_inputs))" "vals_finite (snd (validate default_inputs))"
    by (simp_all add: validate_default py_any_replicate vals_finite_def float_fields_def default_vals_def)
  show ?thesis
    using v rng_half_ok
      exact_risk_bounds [OF v refl _ _ _ _ _ _ rng_half_ok]
    by (simp add: validate_default real_vals_def default_vals_def)
qed

lemma generate_out_of_range:
  assumes "a \<noteq> []" and "\<exists>v\<in>set a. v < 0"
  shows "generate_risk_distribution_data a = Inl (ValueError ''Risk values must be between 0 and 1'')"
  using assms by (simp add: generate_risk_distribution_data_def list_ex_iff)

lemma tiny_literal_is_zero: "py_float ''1e-400'' = Some (Finite 0)"
  by (simp add: parse_defs)

section \<open>The claims\<close>

text \<open>
  Claim C1. The claim: for every validated input and every realization of the draws, each
  reported risk lies in \<open>[0, 1]\<close>. The engine's docstring promises the same (\<^verbatim>\<open>risk\<close>,
  ``a float between 0 and 1''), and \<^verbatim>\<open>generate_risk_distribution_data\<close> refuses an array
  with a value outside \<open>[0, 1]\<close>. The code breaks it: validation checks no sign, so the
  duration \<^verbatim>\<open>"-3600"\<close> at 100 percent prevalence passes with no error, every trial has a
  negative dose, and the engine returns a negative mean under \<^verbatim>\<open>risk\<close>; the range check
  of \<^verbatim>\<open>generate_risk_distribution_data\<close> raises on the trial array, the engine catches it
  and \<^verbatim>\<open>risk_distribution_data\<close> is \<^verbatim>\<open>None\<close>.
\<close>

theorem negative_duration_negative_risk:
  "\<not> py_any (fst (validate negative_duration_inputs))
   \<and> vals_finite (snd (validate negative_duration_inputs))
   \<and> rng_ok rng_half
   \<and> negative_risk (calculate_unified_transmission_exposure negative_duration_inputs rng_half) ''risk''
   \<and> result_at (calculate_unified_transmission_exposure negative_duration_inputs rng_half)
        ''risk_distribution_data'' = Some VNone"
proof -
  define rv where "rv = real_vals (snd (validate negative_duration_inputs))"
  have v: "\<not> py_any (fst (validate negative_duration_inputs))"
    "vals_finite (snd (validate negative_duration_inputs))"
    by (simp_all add: validate_negative_duration py_any_replicate vals_finite_def float_fields_def default_vals_def)
  have f: "ACH_val rv = 1" "room_volume_val rv = 1000" "x_val rv = 0.7" "f_e_val rv = 1"
    "f_i_val rv = 1" "delta_t_val rv = - 3600" "N_val rv = 1" "covid_prev_pct rv = 100"
    by (simp_all add: rv_def validate_negative_duration real_vals_def default_vals_def)
  have neg: "dose_scale rv < 0 \<and> 0 < N_val rv \<and> 1 \<le> covid_prevalence_val rv \<and> 0 < f_e_val rv"
    by (simp add: dose_scale_def covid_prevalence_val_def f)
  obtain rs g' where r: "calculate_unified_transmission_exposure negative_duration_inputs rng_half
                  = Returned (summarize (base_result rv negative_duration_inputs) rs) g'"
      "length rs = adaptive_n_sims (expected_infectious rv)"
      "\<forall>r\<in>set rs. r < 0"
    using engine_returns [OF v rv_def _ _ _ _ rng_half_ok] neg by (auto simp: f)
  have ne: "rs \<noteq> []" using r(2) adaptive_n_sims_pos [of "expected_infectious rv"] by auto
  have "np_mean rs < 0" using ne r(3) by (intro mean_negative) auto
  then have n: "negative_risk (calculate_unified_transmission_exposure negative_duration_inputs rng_half) ''risk''"
    using ne by (simp add: r(1) negative_risk_def float_at_def summarize_scalars array_mean_def)
  have "\<exists>v\<in>set rs. v < 0" using ne r(3) by (cases rs) auto
  then have "generate_risk_distribution_data rs
             = Inl (ValueError ''Risk values must be between 0 and 1'')"
    using ne by (intro generate_out_of_range)
  then have d: "result_at (calculate_unified_transmission_exposure negative_duration_inputs rng_half)
        ''risk_distribution_data'' = Some VNone"
    by (simp add: r(1) summarize_distribution)
  show ?thesis using v rng_half_ok n d by simp
qed

text \<open>
  Claim C2, as amended. A string of white space only is a non-empty string that
  \<^verbatim>\<open>float\<close> does not parse, yet \<^verbatim>\<open>safe_float\<close> strips it first and takes the default
  without an error (the counterexample below: room volume \<^verbatim>\<open>" "\<close> gives a result with a
  \<^verbatim>\<open>risk\<close> key and no \<^verbatim>\<open>error\<close> key). What holds: when some required field is a string
  whose stripped text is not empty and does not parse (as a float; for \<^verbatim>\<open>N\<close> also when
  it does not parse as an integer), the engine returns exactly the object with the single
  key \<^verbatim>\<open>error\<close>, which has no \<^verbatim>\<open>risk\<close> key, and the generator is returned as it was
  received: no draw was made, no trial ran.
\<close>

theorem validation_error_object:
  assumes "list_ex rejected_float (in_N inp # float_args inp) \<or> rejected_int (in_N inp)"
  shows "calculate_unified_transmission_exposure inp g = Returned error_result g
         \<and> dom error_result = {''error''} \<and> error_result ''risk'' = None"
proof -
  have "list_ex rejected_float (float_args inp) \<or> rejected_int (in_N inp)"
    using assms rejected_float_int [of "in_N inp"] by auto
  then have "py_any (fst (validate inp))" by (simp add: py_any_validate)
  then show ?thesis
    by (simp add: calculate_unified_transmission_exposure_def Let_def split_beta error_result_def)
qed

theorem validation_error_object_witness:
  "rejected_float (in_room_volume abc_volume_inputs)
   \<and> calculate_unified_transmission_exposure abc_volume_inputs rng_half = Returned error_result rng_half
   \<and> dom error_result = {''error''} \<and> error_result ''risk'' = None"
proof -
  have r: "rejected_float (in_room_volume abc_volume_inputs)"
    by (simp add: abc_volume_inputs_def parse_defs)
  then have "list_ex rejected_float (in_N abc_volume_inputs # float_args abc_volume_inputs)
      \<or> rejected_int (in_N abc_volume_inputs)"
    by (simp add: float_args_def)
  from validation_error_object [OF this, of rng_half] r show ?thesis by simp
qed

theorem blank_volume_counterexample:
  "in_room_volume blank_volume_inputs = PyStr '' '' \<and> py_float '' '' = None
   \<and> result_at (calculate_unified_transmission_exposure blank_volume_inputs rng_half) ''risk'' \<noteq> None
   \<and> result_at (calculate_unified_transmission_exposure blank_volume_inputs rng_half) ''error'' = None"
proof -
  define rv where "rv = real_vals (snd (validate blank_volume_inputs))"
  have v: "\<not> py_any (fst (validate blank_volume_inputs))"
    "vals_finite (snd (validate blank_volume_inputs))"
    by (simp_all add: validate_blank_volume py_any_replicate vals_finite_def float_fields_def default_vals_def)
  have f: "ACH_val rv = 1" "room_volume_val rv = 1000" "x_val rv = 0.7" "f_e_val rv = 1"
    by (simp_all add: rv_def validate_blank_volume real_vals_def default_vals_def)
  obtain rs g' where r: "calculate_unified_transmission_exposure blank_volume_inputs rng_half
                  = Returned (summarize (base_result rv blank_volume_inputs) rs) g'"
    using engine_returns [OF v rv_def _ _ _ _ rng_half_ok] by (auto simp: f)
  have e: "summarize (base_result rv blank_volume_inputs) rs ''error'' = None"
    by (simp add: summarize_def base_result_def Let_def)
  have a: "in_room_volume blank_volume_inputs = PyStr '' ''" "py_float '' '' = None"
    by (simp_all add: blank_volume_inputs_def parse_defs)
  have b: "result_at (calculate_unified_transmission_exposure blank_volume_inputs rng_half) ''risk'' \<noteq> None"
    "result_at (calculate_unified_transmission_exposure blank_volume_inputs rng_half) ''error'' = None"
    using e by (simp_all add: r summarize_scalars)
  show ?thesis using a b by blast
qed

text \<open>
  Claim C10. For a value that is not a string (\<^verbatim>\<open>None\<close>, a float, an integer, a
  boolean) and for a string of white space only, \<^verbatim>\<open>safe_float\<close> and \<^verbatim>\<open>safe_int\<close> return
  the default with the empty error message; an error message is produced only for a string
  whose stripped text is not empty and does not parse; and when every numeric field of the
  engine is such a value, validation yields the defaults and no error.
\<close>

theorem conversion_defaults:
  "(non_string val \<or> whitespace_only val \<longrightarrow> safe_float val d = (d, []) \<and> safe_int val n = (n, []))
   \<and> (snd (safe_float val d) \<noteq> [] \<longrightarrow> rejected_float val)
   \<and> (snd (safe_int val n) \<noteq> [] \<longrightarrow> rejected_int val)
   \<and> (list_all (\<lambda>a. non_string a \<or> whitespace_only a) (in_N inp # float_args inp)
        \<longrightarrow> validate inp = (replicate 15 [], default_vals))"
proof (intro conjI impI)
  assume "list_all (\<lambda>a. non_string a \<or> whitespace_only a) (in_N inp # float_args inp)"
  then have "list_all (\<lambda>a. strip_value a = []) (in_N inp # float_args inp)"
    by (simp add: list_all_iff strip_value_blank)
  then have "fst (validate inp) = replicate 15 []" "snd (validate inp) = default_vals"
    unfolding fst_validate snd_validate by (simp_all add: float_args_def safe_float_default safe_int_default default_vals_def numeral_eq_Suc)
  then show "validate inp = (replicate 15 [], default_vals)" by (simp add: prod_eq_iff)
qed (simp_all add: strip_value_blank safe_float_default safe_int_default safe_float_err safe_int_err)

theorem conversion_defaults_witness:
  "safe_float (PyFloat (Finite 5)) (Finite 0.1) = (Finite 0.1, [])
   \<and> safe_int (PyFloat (Finite 5)) 1 = (1, [])
   \<and> safe_float (PyStr ''   '') (Finite 0.1) = (Finite 0.1, [])
   \<and> safe_int PyNone 1 = (1, [])
   \<and> snd (safe_float (PyStr ''abc'') (Finite 0.1)) \<noteq> [] \<and> rejected_float (PyStr ''abc'')
   \<and> snd (safe_int (PyStr ''3.5'') 1) \<noteq> [] \<and> rejected_int (PyStr ''3.5'')
   \<and> validate numeric_inputs = (replicate 15 [], default_vals)"
  using conversion_defaults [of "PyFloat (Finite 5)" "Finite 0.1" 1 numeric_inputs]
    conversion_defaults [of "PyStr ''   ''" "Finite 0.1" 1 numeric_inputs]
    conversion_defaults [of PyNone "Finite 0.1" 1 numeric_inputs]
    conversion_defaults [of "PyStr ''abc''" "Finite 0.1" 1 numeric_inputs]
    conversion_defaults [of "PyStr ''3.5''" "Finite 0.1" 1 numeric_inputs]
  by (simp add: numeric_inputs_def float_args_def is_space_def parse_defs)

text \<open>
  Claim C5, as amended. The source tests \<^verbatim>\<open>RH <= 0.40\<close>: at a relative humidity of exactly
  0.40 the decay applies (the counterexample below). What holds for \<open>x \<ge> 0\<close> and \<open>u0 > 0\<close>:
  the factor is exactly 1 when the relative humidity is strictly above 0.40, and
  \<open>max 0 (1 - 0.016 * (x / u0))\<close> at or below it; it always lies in \<open>[0, 1]\<close>.
\<close>

theorem short_range_decay_threshold:
  assumes "0 \<le> x" and "0 < u0"
  shows "short_range_viability_decay x u0 RH
           = (if 0.40 < RH then 1 else max 0 (1 - 0.016 * (x / u0)))
         \<and> 0 \<le> short_range_viability_decay x u0 RH
         \<and> short_range_viability_decay x u0 RH \<le> 1"
proof -
  have "0 \<le> x / u0" using assms by simp
  then show ?thesis
    by (simp add: short_range_viability_decay_def Let_def max_def)
qed

theorem short_range_decay_threshold_witness:
  "(0::real) \<le> 1 \<and> (0::real) < 1
   \<and> short_range_viability_decay 1 1 0.5 = 1
   \<and> short_range_viability_decay 1 1 0.3 = 0.984
   \<and> short_range_viability_decay 100 1 0.3 = 0"
  using short_range_decay_threshold [of 1 1 "0.5"] short_range_decay_threshold [of 1 1 "0.3"]
    short_range_decay_threshold [of 100 1 "0.3"]
  by simp

theorem decay_at_threshold_counterexample:
  "(0.40::real) \<le> 0.40 \<and> short_range_viability_decay 1 1 0.40 = 0.984
   \<and> short_range_viability_decay 1 1 0.40 \<noteq> 1"
  by (simp add: short_range_viability_decay_def)

text \<open>
  Claim C4. For every breathing rate \<open>BR > 0\<close>, with the jet parameters computed from it,
  the jet-like and the puff-like formula have the same value at the transition distance
  (the divisor \<open>\<beta>\<^sub>r\<^sub>j (x\<^sup>* + x\<^sub>0\<^sub>j)\<close> of the puff-like formula is positive there), and the
  dilution factor, as a function of the distance, is continuous at the transition.
\<close>

theorem dilution_continuous_at_transition:
  assumes "0 < BR" and "jp = calculate_henriques_jet_parameters BR"
  shows "jet_dilution (jp_x_transition jp) jp = puff_dilution (jp_x_transition jp) jp
       \<and> 0 < beta_r_j * (jp_x_transition jp + jp_x0_j jp)
       \<and> isCont (\<lambda>x. dilution_factor x jp) (jp_x_transition jp)"
  using transition_pos [OF assms(1)] jet_puff_agree [of jp] dilution_isCont [of jp]
  by (simp add: assms(2) beta_r_j_def)

theorem dilution_continuous_at_transition_witness:
  "(0::real) < 0.57
   \<and> jet_dilution (jp_x_transition (calculate_henriques_jet_parameters 0.57))
        (calculate_henriques_jet_parameters 0.57)
     = puff_dilution (jp_x_transition (calculate_henriques_jet_parameters 0.57))
        (calculate_henriques_jet_parameters 0.57)
   \<and> isCont (\<lambda>x. dilution_factor x (calculate_henriques_jet_parameters 0.57))
        (jp_x_transition (calculate_henriques_jet_parameters 0.57))"
proof -
  have h: "(0::real) < 0.57" by simp
  show ?thesis
    using h dilution_continuous_at_transition [OF h refl] by blast
qed

text \<open>
  Claim C8, as amended. The interior widths are central differences and the two end
  widths are full one-sided differences, so the widths add up to more than the covered
  range (the counterexample below). What holds: each of the 50 widths is positive, the grid
  runs from 0.1 to 30, and the sum of the widths is the covered range plus half the first
  gap plus half the last gap, which is strictly more than the range.
\<close>

theorem particle_grid_widths:
  "list_all (\<lambda>w. 0 < w) dDs \<and> length dDs = 50
   \<and> Ds ! 0 = 0.1 \<and> Ds ! 49 = 30
   \<and> sum_list dDs = (Ds ! 49 - Ds ! 0) + (Ds ! 1 - Ds ! 0) / 2 + (Ds ! 49 - Ds ! 48) / 2
   \<and> Ds ! 49 - Ds ! 0 < sum_list dDs"
proof -
  have "grid_point 0 < grid_point 1" "grid_point 48 < grid_point 49"
    by (simp_all add: grid_point_mono)
  then have "0 < (Ds ! 1 - Ds ! 0) / 2" "0 < (Ds ! 49 - Ds ! 48) / 2" by (simp_all add: Ds_nth)
  then have "Ds ! 49 - Ds ! 0 < sum_list dDs" unfolding dDs_sum by linarith
  moreover have "length dDs = 50" by (simp add: dDs_def bin_widths_def length_Ds)
  ultimately show ?thesis using dDs_pos dDs_sum Ds_0 Ds_49 by blast
qed

theorem grid_width_sum_counterexample: "sum_list dDs \<noteq> Ds ! 49 - Ds ! 0"
proof -
  have "grid_point 0 < grid_point 1" "grid_point 48 < grid_point 49"
    by (simp_all add: grid_point_mono)
  then have "0 < (Ds ! 1 - Ds ! 0) / 2" "0 < (Ds ! 49 - Ds ! 48) / 2" by (simp_all add: Ds_nth)
  then show ?thesis unfolding dDs_sum by linarith
qed

text \<open>
  Claim C7, as amended. \<^verbatim>\<open>float\<close> parses the spellings of infinity and NaN, and a
  decimal literal beyond the double range becomes an infinity, so a field can pass
  validation and not be finite (the counterexample below: room volume \<^verbatim>\<open>"inf"\<close>, distance
  \<^verbatim>\<open>"nan"\<close>). What holds: every validated float field is finite exactly when no field's
  stripped text is a spelling of infinity or NaN (\<^verbatim>\<open>inf\<close>, \<^verbatim>\<open>infinity\<close>, \<^verbatim>\<open>nan\<close>, any case,
  optional sign) or a decimal literal of magnitude at least \<open>2^1024 - 2^970\<close>; \<^verbatim>\<open>N_val\<close>
  is an integer. The second part says when the model leaves the reals.
\<close>

theorem validated_fields_finite:
  "(vals_finite (snd (validate inp)) \<longleftrightarrow> \<not> list_ex nonfinite_text (float_args inp))
   \<and> (calculate_unified_transmission_exposure inp g = NonFinite
        \<longleftrightarrow> \<not> py_any (fst (validate inp)) \<and> list_ex nonfinite_text (float_args inp))"
proof -
  have a: "vals_finite (snd (validate inp)) \<longleftrightarrow> \<not> list_ex nonfinite_text (float_args inp)"
    unfolding snd_validate vals_finite_def float_fields_def float_args_def
    by (simp add: safe_float_finite)
  have b: "calculate_unified_transmission_exposure inp g = NonFinite
        \<longleftrightarrow> \<not> py_any (fst (validate inp)) \<and> \<not> vals_finite (snd (validate inp))"
    by (auto simp: calculate_unified_transmission_exposure_def Let_def split_beta split: sum.splits)
  show ?thesis using a b by simp
qed

theorem validated_fields_finite_witness:
  "vals_finite (snd (validate default_inputs)) \<and> \<not> list_ex nonfinite_text (float_args default_inputs)
   \<and> \<not> py_any (fst (validate default_inputs))
   \<and> calculate_unified_transmission_exposure default_inputs rng_half \<noteq> NonFinite"
proof -
  have "vals_finite (snd (validate default_inputs))" "\<not> py_any (fst (validate default_inputs))"
    by (simp_all add: validate_default py_any_replicate vals_finite_def float_fields_def default_vals_def)
  then show ?thesis
    using validated_fields_finite [of default_inputs rng_half] by blast
qed

theorem infinite_volume_counterexample:
  "\<not> py_any (fst (validate inf_volume_inputs))
   \<and> room_volume_val (snd (validate inf_volume_inputs)) = PosInf
   \<and> x_val (snd (validate inf_volume_inputs)) = NaN
   \<and> \<not> is_finite (room_volume_val (snd (validate inf_volume_inputs)))
   \<and> \<not> is_finite (x_val (snd (validate inf_volume_inputs)))"
  by (simp add: inf_volume_inputs_def default_inputs_def parse_defs py_any_def)

text \<open>
  Claim C3. The number of trials is a function of the expected number of infectious
  occupants, the occupant count times the prevalence fraction (the percentage over 100),
  with the bands below 0.5, from 0.5 below 2, from 2 below 5, from 5 below 10 and from
  10 on giving 25000, 8000, 2000, 1000 and 300 trials; the trial loop, when it
  completes, yields exactly that many risks.
\<close>

theorem adaptive_trial_count:
  "expected_infectious rv = real_of_int (N_val rv) * (covid_prev_pct rv / 100)
   \<and> (expected_infectious rv < 0.5 \<longrightarrow> adaptive_n_sims (expected_infectious rv) = 25000)
   \<and> (0.5 \<le> expected_infectious rv \<and> expected_infectious rv < 2.0
        \<longrightarrow> adaptive_n_sims (expected_infectious rv) = 8000)
   \<and> (2.0 \<le> expected_infectious rv \<and> expected_infectious rv < 5.0
        \<longrightarrow> adaptive_n_sims (expected_infectious rv) = 2000)
   \<and> (5.0 \<le> expected_infectious rv \<and> expected_infectious rv < 10.0
        \<longrightarrow> adaptive_n_sims (expected_infectious rv) = 1000)
   \<and> (10.0 \<le> expected_infectious rv \<longrightarrow> adaptive_n_sims (expected_infectious rv) = 300)
   \<and> (simulations (adaptive_n_sims (expected_infectious rv)) rv inp iem g = Inr (rs, g')
        \<longrightarrow> length rs = adaptive_n_sims (expected_infectious rv))"
proof -
  have e: "expected_infectious rv = real_of_int (N_val rv) * (covid_prev_pct rv / 100)"
    by (simp add: expected_infectious_def covid_prevalence_val_def)
  have l: "simulations (adaptive_n_sims (expected_infectious rv)) rv inp iem g = Inr (rs, g')
        \<longrightarrow> length rs = adaptive_n_sims (expected_infectious rv)"
    using simulations_length by blast
  show ?thesis using e l adaptive_bands [of "expected_infectious rv"] by blast
qed

theorem adaptive_trial_count_witness:
  "adaptive_n_sims (expected_infectious (occupancy 1 1)) = 25000
   \<and> adaptive_n_sims (expected_infectious (occupancy 1 50)) = 8000
   \<and> adaptive_n_sims (expected_infectious (occupancy 2 100)) = 2000
   \<and> adaptive_n_sims (expected_infectious (occupancy 5 100)) = 1000
   \<and> adaptive_n_sims (expected_infectious (occupancy 10 100)) = 300
   \<and> simulations (adaptive_n_sims (expected_infectious (occupancy 1 1))) (occupancy 1 1)
        default_inputs 1 rng_half = Inr (replicate 25000 0, rng_half)
   \<and> length (replicate 25000 (0::real)) = adaptive_n_sims (expected_infectious (occupancy 1 1))"
proof -
  have p: "covid_prevalence_val (occupancy 1 1) \<le> 1 / 2"
    by (simp add: covid_prevalence_val_def occupancy_def)
  have n: "adaptive_n_sims (expected_infectious (occupancy 1 1)) = 25000"
    using adaptive_trial_count [of "occupancy 1 1"] by (simp add: expected_occupancy)
  have s: "simulations (adaptive_n_sims (expected_infectious (occupancy 1 1))) (occupancy 1 1)
        default_inputs 1 rng_half = Inr (replicate 25000 0, rng_half)"
    unfolding n by (rule simulations_none [OF p])
  show ?thesis
    using n s
      adaptive_trial_count [of "occupancy 1 1" default_inputs 1 rng_half "replicate 25000 0" rng_half]
      adaptive_trial_count [of "occupancy 1 50"]
      adaptive_trial_count [of "occupancy 2 100"]
      adaptive_trial_count [of "occupancy 5 100"]
      adaptive_trial_count [of "occupancy 10 100"]
    by (simp add: expected_occupancy)
qed

text \<open>
  Claim C6, as amended. The axis is trimmed to the bulk of the distribution (from 0.8
  times the 5th percentile to 1.2 times the 95th), and NumPy's histogram drops the
  values outside the edges, so the counts need not add up to the number of trials (the
  counterexample below: the array \<open>[0.1, 1]\<close> has one value counted out of two). What
  holds whenever the histogram object is produced (the array is then non-empty with
  entries in \<open>[0, 1]\<close>): there is exactly one edge more than there are bins, the sum of the
  counts is the number of trials lying between the first and the last edge, it is at most
  the number of trials, and \<^verbatim>\<open>total_simulations\<close> is the number of trials.
\<close>

theorem histogram_invariants:
  assumes "generate_risk_distribution_data a = Inr d"
  shows "a \<noteq> [] \<and> list_all (\<lambda>v. 0 \<le> v \<and> v \<le> 1) a
       \<and> length (h_edges (rd_histogram d)) = length (h_counts (rd_histogram d)) + 1
       \<and> sum_list (h_counts (rd_histogram d))
           = count_where (\<lambda>v. hd (h_edges (rd_histogram d)) \<le> v
                               \<and> v \<le> last (h_edges (rd_histogram d))) a
       \<and> sum_list (h_counts (rd_histogram d)) \<le> int (length a)
       \<and> h_total_simulations (rd_histogram d) = length a"
proof -
  have "a \<noteq> []" "list_all (\<lambda>v. 0 \<le> v \<and> v \<le> 1) a"
    using assms unfolding generate_cases [of a] by (auto split: if_splits)
  then show ?thesis using histogram_shape [OF assms] by simp
qed

theorem histogram_invariants_witness:
  "generate_risk_distribution_data [1 / 10, 1]
     = Inr (projr (generate_risk_distribution_data [1 / 10, 1]))
   \<and> length (h_edges (rd_histogram (projr (generate_risk_distribution_data [1 / 10, 1]))))
       = length (h_counts (rd_histogram (projr (generate_risk_distribution_data [1 / 10, 1])))) + 1
   \<and> sum_list (h_counts (rd_histogram (projr (generate_risk_distribution_data [1 / 10, 1]))))
       \<le> int (length [1 / 10, 1 :: real])"
proof -
  have g: "generate_risk_distribution_data [1 / 10, 1]
     = Inr (projr (generate_risk_distribution_data [1 / 10, 1]))"
    using generate_pair by (cases "generate_risk_distribution_data [1 / 10, 1]") simp_all
  show ?thesis using g histogram_invariants [OF g] by blast
qed

theorem histogram_count_counterexample:
  "\<not> isl (generate_risk_distribution_data [1 / 10, 1])
   \<and> sum_list (h_counts (rd_histogram (projr (generate_risk_distribution_data [1 / 10, 1])))) = 1
   \<and> h_total_simulations (rd_histogram (projr (generate_risk_distribution_data [1 / 10, 1]))) = 2"
proof -
  have g: "generate_risk_distribution_data [1 / 10, 1]
     = Inr (projr (generate_risk_distribution_data [1 / 10, 1]))"
    using generate_pair by (cases "generate_risk_distribution_data [1 / 10, 1]") simp_all
  have e: "h_edges (rd_histogram (projr (generate_risk_distribution_data [1 / 10, 1])))
             = histogram_bins [1 / 10, 1]"
    unfolding generate_cases [of "[1 / 10, 1]"] by (simp add: axes_pair width_pair)
  show ?thesis
    using histogram_shape [OF g] generate_pair
    by (simp add: e bins_pair count_where_def)
qed



end
